theory Spec2Isabelle
  imports Main "HOL-Library.Word"
begin

unbundle bit_operations_syntax

section \<open>Data model\<close>

text \<open>
  Fixed-width values of the Go code: \<open>thor.Bytes32\<close> and \<open>thor.Address\<close> are byte arrays
  read as big-endian words, block numbers are \<open>uint32\<close>, timestamps \<open>uint64\<close>,
  \<open>tx.Features\<close> is a \<open>uint32\<close> bitset.
\<close>

type_synonym Bytes32 = "256 word"
type_synonym Address = "160 word"
type_synonym u32 = "32 word"
type_synonym u64 = "64 word"
type_synonym Features = "32 word"
type_synonym bytecode = "8 word list"

definition IsZero :: "'a::len word \<Rightarrow> bool" where
  "IsZero b = (b = 0)"

text \<open>The observations of a \<open>*block.Header\<close> that the consensus and bft code read.\<close>

record Header =
  ID :: Bytes32
  ParentID :: Bytes32
  Number :: u32
  Timestamp :: u64
  TxsFeatures :: Features
  StateRoot :: Bytes32
  NV :: Bytes32

record Block =
  Header :: Header

record BlockSummary =
  Summary_Header :: Header

record Candidate =
  NodeMaster :: Address
  Endorsor :: Address
  Identity :: Bytes32
  VrfPublicKey :: Bytes32
  Active :: bool

datatype stage = Stage Bytes32
datatype receipt = Receipt nat
type_synonym Receipts = "receipt list"

subsection \<open>Errors and panics\<close>

text \<open>
  An error value produced by a collaborator outside the modelled files (repository,
  state, authority) is identified with its \<open>Error()\<close> text.
\<close>

type_synonym foreign = string

datatype message = strErrTxFeatures | Literal string
datatype key = strDataExpected | strDataCurr | strDataExp | Key string
datatype datum = U32 u32 | Feat Features | Addr Address

text \<open>
  \<open>newConsensusError(trace, msg, keys, values, cause)\<close> and the method \<open>AddTraceInfo\<close>
  build consensus errors; the value is kept as the term that built it.
\<close>

datatype consensusError =
    newConsensusError string message "key list" "datum list" string
  | AddTraceInfo consensusError string

datatype error =
    errKnownBlock
  | errParentMissing
  | Consensus consensusError
  | Foreign foreign
  | errorsNew string

datatype panic = NilDereference | IndexOutOfRange | TypeAssertion

datatype 'a outcome = Return 'a | Panics panic

text \<open>
  A Go call \<open>v, err := f()\<close> whose failure returns \<open>(nil, err)\<close> is a sum; the two
  projections are the pointer and the error that the caller receives.
\<close>

definition ptr_of :: "'e + 'a \<Rightarrow> 'a option" where
  "ptr_of res = (case res of Inl _ \<Rightarrow> None | Inr v \<Rightarrow> Some v)"

definition err_of :: "'e + 'a \<Rightarrow> 'e option" where
  "err_of res = (case res of Inl e \<Rightarrow> Some e | Inr _ \<Rightarrow> None)"

section \<open>Fork configuration (package thor)\<close>

record ForkConfig =
  VIP191 :: u32
  ETH_CONST :: u32
  BLOCKLIST :: u32
  VIP193 :: u32

definition MaxUint32 :: u32 where
  "MaxUint32 = 0xFFFFFFFF"

definition MaxInt32 :: u32 where
  "MaxInt32 = 0x7FFFFFFF"

definition NoFork :: ForkConfig where
  "NoFork = \<lparr> VIP191 = MaxUint32, ETH_CONST = MaxUint32, BLOCKLIST = MaxUint32,
              VIP193 = MaxInt32 \<rparr>"

text \<open>\<open>ForkConfig.String\<close>: the forks whose height is not \<open>math.MaxUint32\<close>, in order.\<close>

definition push :: "string \<Rightarrow> u32 \<Rightarrow> (string \<times> u32) list \<Rightarrow> (string \<times> u32) list" where
  "push name blockNum strs = (if blockNum \<noteq> MaxUint32 then strs @ [(name, blockNum)] else strs)"

definition String_forks :: "ForkConfig \<Rightarrow> (string \<times> u32) list" where
  "String_forks fc =
     push ''VIP193'' (VIP193 fc)
       (push ''BLOCKLIST'' (BLOCKLIST fc)
         (push ''ETH_CONST'' (ETH_CONST fc)
           (push ''VIP191'' (VIP191 fc) [])))"

text \<open>The embedded table of VRF public keys; a Go map lookup of an absent key is zero.\<close>

definition vrfPublicKeyMap :: "(Address \<times> Bytes32) list" where
  "vrfPublicKeyMap =
    [(0x2a02604a8b7aaa84991c21d7de1c3238046c5275,
      0x96893d6f2d785dbdf75d635d74ee53b85a3e7837150d321c4965de3def134182),
     (0x86fd9eb1cf082d7d6b0c6033fc89ccfcbf648549,
      0x97b182c4d88435c3781bf5f29a59c169a91564acbf193c9ba95a4db3fa703f26),
     (0x8f53d18bb03c84ed92abe0b6a9a8c277dbbf719f,
      0x2ab534b885f45e7e628e3bea8bb1a7e914f0009d077a44ac2d4461e7731fcb2c)]"

definition GetVrfPuiblicKey :: "Address \<Rightarrow> Bytes32" where
  "GetVrfPuiblicKey addr = (case map_of vrfPublicKeyMap addr of None \<Rightarrow> 0 | Some k \<Rightarrow> k)"

section \<open>Collaborators outside the modelled files\<close>

text \<open>
  A \<open>*chain.Chain\<close> (a branch) and the \<open>*chain.Repository\<close>, as the results of the
  methods the code calls on them.
\<close>

record Chain =
  HeadID :: Bytes32
  GetBlockHeader :: "u32 \<Rightarrow> foreign + Header"

record Repository =
  GetBlockSummary :: "Bytes32 \<Rightarrow> foreign + BlockSummary"
  IsNotFound :: "foreign \<Rightarrow> bool"
  NewChain :: "Bytes32 \<Rightarrow> Chain"
  GetBranchesByTimestamp :: "u64 \<Rightarrow> foreign + Chain list"

record 's Consensus =
  repo :: Repository
  stater :: "Bytes32 \<Rightarrow> 's"
  forkConfig :: ForkConfig

text \<open>
  Functions and constants of packages \<open>state\<close>, \<open>builtin\<close>, \<open>tx\<close> and of the
  validator, taken as parameters. State-changing calls return the new state.
\<close>

record 's Packages =
  SetCode :: "'s \<Rightarrow> Address \<Rightarrow> bytecode \<Rightarrow> 's \<times> foreign option"
  Extension_Address :: Address
  Extension_V2 :: bytecode
  Authority_Address :: Address
  Authority_V2 :: bytecode
  AllCandidates :: "'s \<Rightarrow> foreign + Candidate list"
  Add2 :: "'s \<Rightarrow> Address \<Rightarrow> Address \<Rightarrow> Bytes32 \<Rightarrow> Bytes32 \<Rightarrow> 's \<times> bool \<times> foreign option"
  Update2 :: "'s \<Rightarrow> Address \<Rightarrow> bool \<Rightarrow> 's \<times> bool \<times> foreign option"
  DelegationFeature :: Features
  validate :: "'s Consensus \<Rightarrow> 's \<Rightarrow> Block \<Rightarrow> Header \<Rightarrow> u64
                 \<Rightarrow> stage option \<times> Receipts option \<times> error option"

section \<open>Package consensus\<close>

definition causeMsg_of :: "foreign option \<Rightarrow> string" where
  "causeMsg_of err = (case err of None \<Rightarrow> '''' | Some e \<Rightarrow> e)"

definition node_error :: "string \<Rightarrow> Address \<Rightarrow> string \<Rightarrow> error" where
  "node_error msg node causeMsg =
     Consensus (newConsensusError ''UpdateNode'' (Literal msg) [Key ''node''] [Addr node] causeMsg)"

text \<open>
  The \<open>for i, candidate := range candidates\<close> loop of \<open>UpdateConsensusNodesForVip193\<close>,
  from index \<open>i\<close> on; it yields the authority state and the error it returns with, if any.
\<close>

fun candidatesLoop :: "'s Packages \<Rightarrow> nat \<Rightarrow> Candidate list \<Rightarrow> 's \<Rightarrow> 's \<times> error option" where
  "candidatesLoop pk i [] st = (st, None)"
| "candidatesLoop pk i (candidate # rest) st =
     (let vrfpk = GetVrfPuiblicKey (NodeMaster candidate) in
      if IsZero vrfpk
      then (st, Some (node_error ''vrf public key not found'' (NodeMaster candidate) ''''))
      else
        (case Add2 pk st (NodeMaster candidate) (Endorsor candidate) (Identity candidate) vrfpk of
           (st1, ok, err) \<Rightarrow>
             if \<not> ok \<or> err \<noteq> None
             then (st1, Some (node_error ''failed to add node'' (NodeMaster candidate)
                                (causeMsg_of err)))
             else if \<not> Active candidate
             then
               (case Update2 pk st1 (NodeMaster candidate) False of
                  (st2, ok2, err2) \<Rightarrow>
                    if (\<not> ok2 \<and> i > 0) \<or> err2 \<noteq> None
                    then (st2, Some (node_error ''failed to update node status''
                                       (NodeMaster candidate) (causeMsg_of err2)))
                    else candidatesLoop pk (Suc i) rest st2)
             else candidatesLoop pk (Suc i) rest st1))"

text \<open>
  \<open>UpdateConsensusNodesForVip193\<close>. The first component of the result is the local
  authority state \<open>st\<close> at exit (\<open>None\<close> before it is created), the second the returned error.
\<close>

definition UpdateConsensusNodesForVip193 ::
  "'s Packages \<Rightarrow> 's Consensus \<Rightarrow> Header \<Rightarrow> ('s option \<times> error option) outcome" where
  "UpdateConsensusNodesForVip193 pk c header =
     (if VIP193 (forkConfig c) \<noteq> Number header
      then Return (None, Some (Consensus (newConsensusError ''UpdateNode''
                     (Literal ''block number inconsistent with vip193'')
                     [strDataExp, strDataCurr]
                     [U32 (VIP193 (forkConfig c)), U32 (Number header)] '''')))
      else
        (let st = stater c (ID header) in
         case AllCandidates pk st of
           Inl err \<Rightarrow> Return (Some st, Some (Foreign err))
         | Inr candidates \<Rightarrow>
             (case candidatesLoop pk 0 candidates st of
                (st1, Some e) \<Rightarrow> Return (Some st1, Some e)
              | (st1, None) \<Rightarrow>
                  (case candidates of
                     [] \<Rightarrow> Panics IndexOutOfRange
                   | first # _ \<Rightarrow>
                       if \<not> Active first
                       then
                         (case Update2 pk st1 (NodeMaster first) False of
                            (st2, ok, err) \<Rightarrow>
                              if \<not> ok \<or> err \<noteq> None
                              then Return (Some st2,
                                     Some (node_error ''failed to update node status''
                                             (NodeMaster first) (causeMsg_of err)))
                              else Return (Some st2, None))
                       else Return (Some st1, None)))))"

text \<open>
  The fork height that \<open>Process\<close> works with: \<open>if vip191 == 0 { vip191 = 1 }\<close>, and
  the same for \<open>vip193\<close>.
\<close>

definition activation :: "u32 \<Rightarrow> u32" where
  "activation v = (if v = 0 then 1 else v)"

text \<open>
  The VIP193 hook of \<open>Process\<close>: \<open>Inl\<close> is the early return of \<open>Process\<close>, \<open>Inr\<close> the
  state it goes on with.
\<close>

definition vip193_hook ::
  "'s Packages \<Rightarrow> 's Consensus \<Rightarrow> Header \<Rightarrow> 's
     \<Rightarrow> (stage option \<times> Receipts option \<times> error option) outcome + 's" where
  "vip193_hook pk c header state =
     (if Number header = activation (VIP193 (forkConfig c))
      then
        (case SetCode pk state (Authority_Address pk) (Authority_V2 pk) of
           (state1, Some err) \<Rightarrow>
             Inl (Return (None, None, Some (Consensus (newConsensusError ''Process''
                    (Literal ''failed to add authority v2 bytecode'') [] [] err))))
         | (state1, None) \<Rightarrow>
             (case UpdateConsensusNodesForVip193 pk c header of
                Panics p \<Rightarrow> Inl (Panics p)
              | Return (_, None) \<Rightarrow> Inr state1
              | Return (_, Some err) \<Rightarrow>
                  (case err of
                     Consensus ce \<Rightarrow>
                       Inl (Return (None, None, Some (Consensus (AddTraceInfo ce ''Process''))))
                   | _ \<Rightarrow> Inl (Panics TypeAssertion))))
      else Inr state)"

text \<open>The hook before VIP-191: the extension contract's code is set to V2.\<close>

definition vip191_hook ::
  "'s Packages \<Rightarrow> 's Consensus \<Rightarrow> Header \<Rightarrow> 's \<Rightarrow> 's \<times> foreign option" where
  "vip191_hook pk c header state =
     (if Number header = activation (VIP191 (forkConfig c))
      then SetCode pk state (Extension_Address pk) (Extension_V2 pk)
      else (state, None))"

text \<open>The value of \<open>features\<close> that the header's \<open>TxsFeatures\<close> is compared with.\<close>

definition required_features :: "'s Packages \<Rightarrow> 's Consensus \<Rightarrow> Header \<Rightarrow> Features" where
  "required_features pk c header =
     (if Number header \<ge> activation (VIP191 (forkConfig c))
      then 0 OR DelegationFeature pk else 0)"

definition errTxFeatures :: "Features \<Rightarrow> Features \<Rightarrow> error" where
  "errTxFeatures expected current =
     Consensus (newConsensusError ''Process'' strErrTxFeatures [strDataExpected, strDataCurr]
                  [Feat expected, Feat current] '''')"

text \<open>\<open>Process\<close> from the creation of the state on, given the parent's summary.\<close>

definition Process_on_parent ::
  "'s Packages \<Rightarrow> 's Consensus \<Rightarrow> Block \<Rightarrow> u64 \<Rightarrow> BlockSummary
     \<Rightarrow> (stage option \<times> Receipts option \<times> error option) outcome" where
  "Process_on_parent pk c blk nowTimestamp parentSummary =
     (let header = Header blk;
          state = stater c (StateRoot (Summary_Header parentSummary))
      in
      case vip191_hook pk c header state of
        (state1, Some err) \<Rightarrow> Return (None, None, Some (Foreign err))
      | (state1, None) \<Rightarrow>
          (let features = required_features pk c header in
           if TxsFeatures header \<noteq> features
           then Return (None, None, Some (errTxFeatures features (TxsFeatures header)))
           else
             (case vip193_hook pk c header state1 of
                Inl early \<Rightarrow> early
              | Inr state2 \<Rightarrow>
                  (case validate pk c state2 blk (Summary_Header parentSummary) nowTimestamp of
                     (stg, receipts, Some err) \<Rightarrow> Return (None, None, Some err)
                   | (stg, receipts, None) \<Rightarrow> Return (stg, receipts, None)))))"

definition Process ::
  "'s Packages \<Rightarrow> 's Consensus \<Rightarrow> Block \<Rightarrow> u64
     \<Rightarrow> (stage option \<times> Receipts option \<times> error option) outcome" where
  "Process pk c blk nowTimestamp =
     (let header = Header blk in
      case GetBlockSummary (repo c) (ID header) of
        Inr _ \<Rightarrow> Return (None, None, Some errKnownBlock)
      | Inl err \<Rightarrow>
          if \<not> IsNotFound (repo c) err
          then Return (None, None, Some (Foreign err))
          else
            (case GetBlockSummary (repo c) (ParentID header) of
               Inl err2 \<Rightarrow>
                 if \<not> IsNotFound (repo c) err2
                 then Return (None, None, Some (Foreign err2))
                 else Return (None, None, Some errParentMissing)
             | Inr parentSummary \<Rightarrow> Process_on_parent pk c blk nowTimestamp parentSummary))"


text \<open>
  How far \<open>Process\<close> gets: the block is not stored, its parent's summary \<open>ps\<close> is found and
  the hook before VIP-191 leaves the state \<open>state1\<close> without an error, so that the header's
  features are compared next; and beyond that, the features are the required ones, so that
  the VIP193 hook is entered with \<open>state1\<close>.
\<close>

definition reaches_feature_check ::
  "'s Packages \<Rightarrow> 's Consensus \<Rightarrow> Block \<Rightarrow> BlockSummary \<Rightarrow> 's \<Rightarrow> bool" where
  "reaches_feature_check pk c blk ps state1 =
     ((case GetBlockSummary (repo c) (ID (Header blk)) of
         Inl err \<Rightarrow> IsNotFound (repo c) err
       | Inr _ \<Rightarrow> False)
      \<and> GetBlockSummary (repo c) (ParentID (Header blk)) = Inr ps
      \<and> vip191_hook pk c (Header blk) (stater c (StateRoot (Summary_Header ps))) = (state1, None))"

definition reaches_vip193_hook ::
  "'s Packages \<Rightarrow> 's Consensus \<Rightarrow> Block \<Rightarrow> BlockSummary \<Rightarrow> 's \<Rightarrow> bool" where
  "reaches_vip193_hook pk c blk ps state1 =
     (reaches_feature_check pk c blk ps state1
      \<and> TxsFeatures (Header blk) = required_features pk c (Header blk))"

text \<open>
  The authority registry (package \<open>builtin\<close>) is outside the modelled files. What its
  operations are taken to do to a node's active flag \<open>act\<close>, read off a state: a node that
  \<open>Add2\<close> has added is active, a successful \<open>Update2\<close> sets the flag, and neither changes
  the flag of another node.
\<close>

definition authority_contract :: "'s Packages \<Rightarrow> ('s \<Rightarrow> Address \<Rightarrow> bool) \<Rightarrow> bool" where
  "authority_contract pk act \<longleftrightarrow>
     (\<forall>st a e i k st'. Add2 pk st a e i k = (st', True, None) \<longrightarrow> act st' a)
   \<and> (\<forall>st a b st'. Update2 pk st a b = (st', True, None) \<longrightarrow> act st' a = b)
   \<and> (\<forall>st a e i k st' ok err a'.
         Add2 pk st a e i k = (st', ok, err) \<and> a' \<noteq> a \<longrightarrow> act st' a' = act st a')
   \<and> (\<forall>st a b st' ok err a'.
         Update2 pk st a b = (st', ok, err) \<and> a' \<noteq> a \<longrightarrow> act st' a' = act st a')"

section \<open>Package bft: the RTPC tracker\<close>

text \<open>
  A \<open>*view\<close> as the results of its query methods, and the functions of packages
  \<open>bft\<close> and \<open>block\<close> that the tracker calls and that lie outside the modelled file.
\<close>

record View =
  hasQCForNV :: bool
  getFirstBlockID :: Bytes32
  getNumSigOnPC :: "Bytes32 \<Rightarrow> int"
  hasQCForPP :: "bool \<times> Bytes32"
  hasConflictPC :: bool

record Bft =
  newView :: "Chain \<Rightarrow> u32 \<Rightarrow> foreign + View"
  isAncestor :: "Repository \<Rightarrow> Bytes32 \<Rightarrow> Bytes32 \<Rightarrow> bool \<times> foreign option"
  block_Number :: "Bytes32 \<Rightarrow> u32"

record rtpc =
  repo :: Repository
  curr :: "Header option"
  lastCommitted :: Bytes32

definition newRTPC :: "Repository \<Rightarrow> Bytes32 \<Rightarrow> rtpc" where
  "newRTPC rp lc = \<lparr> repo = rp, curr = None, lastCommitted = lc \<rparr>"

definition get :: "rtpc \<Rightarrow> Header option" where
  "get r = curr r"

text \<open>\<open>r.curr != nil && p(r.curr)\<close>\<close>

definition curr_is :: "rtpc \<Rightarrow> (Header \<Rightarrow> bool) \<Rightarrow> bool" where
  "curr_is r p = (case curr r of None \<Rightarrow> False | Some c \<Rightarrow> p c)"

definition errNotOffspring :: error where
  "errNotOffspring = errorsNew ''Input block must be an offspring of the last committed''"

text \<open>The ancestry guard at the head of \<open>updateLastCommitted\<close>: the error it returns with.\<close>

definition offspring_guard :: "Bft \<Rightarrow> rtpc \<Rightarrow> Bytes32 \<Rightarrow> error option" where
  "offspring_guard d r newLast =
     (if \<not> IsZero (lastCommitted r)
      then
        (case isAncestor d (rtpc.repo r) newLast (lastCommitted r) of
           (ok, Some err) \<Rightarrow> Some (Foreign err)
         | (ok, None) \<Rightarrow> if \<not> ok then Some errNotOffspring else None)
      else None)"

definition updateLastCommitted :: "Bft \<Rightarrow> rtpc \<Rightarrow> Bytes32 \<Rightarrow> rtpc \<times> error option" where
  "updateLastCommitted d r newLast =
     (case offspring_guard d r newLast of
        Some e \<Rightarrow> (r, Some e)
      | None \<Rightarrow>
          (let r1 = r\<lparr> lastCommitted := newLast \<rparr> in
           case curr r1 of
             None \<Rightarrow> (r1, None)
           | Some c \<Rightarrow>
               (case GetBlockSummary (rtpc.repo r1) newLast of
                  Inl err \<Rightarrow> (r1, Some (Foreign err))
                | Inr summary \<Rightarrow>
                    if Timestamp c \<le> Timestamp (Summary_Header summary)
                    then (r1\<lparr> curr := None \<rparr>, None)
                    else (r1, None))))"

text \<open>
  The inner \<open>for\<close> loop of \<open>update\<close> along one branch, from block number \<open>num\<close>. It
  ends with \<open>break\<close> (\<open>NextBranch\<close>), with \<open>goto END_SEARCH\<close> after \<open>ifUpdate = false\<close>
  (\<open>EndSearch\<close>) or with a returned error; \<open>None\<close> is a loop that never ends.
\<close>

datatype search = NextBranch | EndSearch | SearchError foreign

partial_function (option) searchBranch ::
  "Bft \<Rightarrow> Chain \<Rightarrow> Bytes32 \<Rightarrow> u64 \<Rightarrow> u32 \<Rightarrow> search option" where
  "searchBranch d branch cid currViewTS num =
     (case GetBlockHeader branch num of
        Inl err \<Rightarrow> Some (SearchError err)
      | Inr header \<Rightarrow>
          (let num1 = block_Number d (NV header) in
           case GetBlockHeader branch num1 of
             Inl err \<Rightarrow> Some (SearchError err)
           | Inr nv \<Rightarrow>
               if Timestamp nv \<le> currViewTS then Some NextBranch
               else
                 (case newView d branch num1 of
                    Inl err \<Rightarrow> Some (SearchError err)
                  | Inr vw \<Rightarrow>
                      if hasQCForNV vw \<and> getNumSigOnPC vw cid = 0 then Some EndSearch
                      else
                        (let num2 = num1 - 1 in
                         if num2 \<le> 0 then Some NextBranch
                         else searchBranch d branch cid currViewTS num2))))"

text \<open>The loop over the branches: the final value of \<open>ifUpdate\<close>, or the returned error.\<close>

fun searchBranches ::
  "Bft \<Rightarrow> Chain list \<Rightarrow> Bytes32 \<Rightarrow> u64 \<Rightarrow> (foreign + bool) option" where
  "searchBranches d [] cid currViewTS = Some (Inr True)"
| "searchBranches d (branch # rest) cid currViewTS =
     (case searchBranch d branch cid currViewTS (block_Number d (HeadID branch)) of
        None \<Rightarrow> None
      | Some (SearchError err) \<Rightarrow> Some (Inl err)
      | Some EndSearch \<Rightarrow> Some (Inr False)
      | Some NextBranch \<Rightarrow> searchBranches d rest cid currViewTS)"

text \<open>\<open>update\<close> from the check for 2f+1 pp messages on, entered with \<open>r.curr == nil\<close>.\<close>

definition adoptCandidate ::
  "Bft \<Rightarrow> rtpc \<Rightarrow> View \<Rightarrow> u64 \<Rightarrow> (rtpc \<times> error option) outcome option" where
  "adoptCandidate d r currView currViewTS =
     (case hasQCForPP currView of
        (ok, cid) \<Rightarrow>
          if \<not> ok \<or> hasConflictPC currView then Some (Return (r, None))
          else
            (case GetBlockSummary (rtpc.repo r) cid of
               Inl err \<Rightarrow> Some (Return (r, Some (Foreign err)))
             | Inr summary \<Rightarrow>
                 (let candidate = Summary_Header summary in
                  case GetBlockSummary (rtpc.repo r) (lastCommitted r) of
                    Inl err \<Rightarrow> Some (Return (r, Some (Foreign err)))
                  | Inr summary2 \<Rightarrow>
                      if Timestamp candidate \<le> Timestamp (Summary_Header summary2)
                      then Some (Return (r, None))
                      else
                        (case GetBranchesByTimestamp (rtpc.repo r) currViewTS of
                           Inl err \<Rightarrow> Some (Return (r, Some (Foreign err)))
                         | Inr branches \<Rightarrow>
                             (case searchBranches d branches (ID candidate) currViewTS of
                                None \<Rightarrow> None
                              | Some (Inl err) \<Rightarrow> Some (Return (r, Some (Foreign err)))
                              | Some (Inr ifUpdate) \<Rightarrow>
                                  Some (Return (if ifUpdate then r\<lparr> curr := Some candidate \<rparr>
                                                else r, None)))))))"

text \<open>
  \<open>update\<close>. The summary of the view's first block is dereferenced before the error of
  its lookup is tested; on a failed lookup the pointer is nil.
\<close>

definition update :: "Bft \<Rightarrow> rtpc \<Rightarrow> Block \<Rightarrow> (rtpc \<times> error option) outcome option" where
  "update d r newBlock =
     (let branch = NewChain (rtpc.repo r) (ID (Header newBlock)) in
      case newView d branch (block_Number d (NV (Header newBlock))) of
        Inl err \<Rightarrow> Some (Return (r, Some (Foreign err)))
      | Inr currView \<Rightarrow>
          if \<not> hasQCForNV currView then Some (Return (r, None))
          else
            (let res = GetBlockSummary (rtpc.repo r) (getFirstBlockID currView) in
             case ptr_of res of
               None \<Rightarrow> Some (Panics NilDereference)
             | Some summary \<Rightarrow>
                 (let currViewTS = Timestamp (Summary_Header summary) in
                  case err_of res of
                    Some err \<Rightarrow> Some (Return (r, Some (Foreign err)))
                  | None \<Rightarrow>
                      if curr_is r (\<lambda>c. currViewTS \<le> Timestamp c) then Some (Return (r, None))
                      else
                        (let r1 = (if curr_is r (\<lambda>c. getNumSigOnPC currView (ID c) = 0)
                                   then r\<lparr> curr := None \<rparr> else r) in
                         if curr r1 \<noteq> None then Some (Return (r1, None))
                         else adoptCandidate d r1 currView currViewTS))))"

section \<open>A small concrete world\<close>

text \<open>
  A repository that stores the blocks with ids 1 to 3 on a branch of four blocks, ten
  seconds apart, and an authority registry kept as a list of (node master, active)
  pairs, newest first. As in the registry of the code, an entry can be updated only once
  it is linked, that is once the registry has a second entry.
\<close>

type_synonym registry = "(Address \<times> bool) list"

definition stored :: "Bytes32 \<Rightarrow> Header" where
  "stored i = \<lparr> ID = i, ParentID = i - 1, Number = ucast i,
                Timestamp = 1526400000 + 10 * ucast i,
                TxsFeatures = 0, StateRoot = 100 + i, NV = i \<rparr>"

definition not_found :: foreign where
  "not_found = ''not found''"

definition lookup_header :: "u32 \<Rightarrow> foreign + Header" where
  "lookup_header n = (if 1 \<le> n \<and> n \<le> 4 then Inr (stored (ucast n)) else Inl not_found)"

definition small_chain :: Chain where
  "small_chain = \<lparr> HeadID = 4, GetBlockHeader = lookup_header \<rparr>"

definition lookup_summary :: "Bytes32 \<Rightarrow> foreign + BlockSummary" where
  "lookup_summary i =
     (if 1 \<le> i \<and> i \<le> 3 then Inr \<lparr> Summary_Header = stored i \<rparr> else Inl not_found)"

definition is_not_found :: "foreign \<Rightarrow> bool" where
  "is_not_found e = (e = not_found)"

definition chain_of :: "Bytes32 \<Rightarrow> Chain" where
  "chain_of i = small_chain"

definition one_branch :: "u64 \<Rightarrow> foreign + Chain list" where
  "one_branch ts = Inr [small_chain]"

definition small_repo :: Repository where
  "small_repo = \<lparr> GetBlockSummary = lookup_summary, IsNotFound = is_not_found,
                   NewChain = chain_of, GetBranchesByTimestamp = one_branch \<rparr>"

text \<open>
  Views: every view but the first has a new-view quorum; block 3 has the pp quorum and
  the only pc signature.
\<close>

definition pc_on_3 :: "Bytes32 \<Rightarrow> int" where
  "pc_on_3 i = (if i = 3 then 1 else 0)"

definition view_at :: "u32 \<Rightarrow> View" where
  "view_at n = \<lparr> hasQCForNV = (n \<noteq> 1), getFirstBlockID = ucast n, getNumSigOnPC = pc_on_3,
                  hasQCForPP = (True, 3), hasConflictPC = False \<rparr>"

definition new_view :: "Chain \<Rightarrow> u32 \<Rightarrow> foreign + View" where
  "new_view branch n = (if 1 \<le> n \<and> n \<le> 4 then Inr (view_at n) else Inl not_found)"

definition later_id :: "Repository \<Rightarrow> Bytes32 \<Rightarrow> Bytes32 \<Rightarrow> bool \<times> foreign option" where
  "later_id rp a b = (b < a, None)"

definition number_of :: "Bytes32 \<Rightarrow> u32" where
  "number_of i = ucast i"

definition small_bft :: Bft where
  "small_bft = \<lparr> newView = new_view, isAncestor = later_id, block_Number = number_of \<rparr>"

definition tracker :: "Header option \<Rightarrow> Bytes32 \<Rightarrow> rtpc" where
  "tracker c lc = \<lparr> repo = small_repo, curr = c, lastCommitted = lc \<rparr>"

definition empty_state :: "Bytes32 \<Rightarrow> registry" where
  "empty_state root = []"

definition small_consensus :: "ForkConfig \<Rightarrow> registry Consensus" where
  "small_consensus fc = \<lparr> Consensus.repo = small_repo, stater = empty_state, forkConfig = fc \<rparr>"

definition set_code :: "registry \<Rightarrow> Address \<Rightarrow> bytecode \<Rightarrow> registry \<times> foreign option" where
  "set_code st a code = (st, None)"

definition active_in :: "registry \<Rightarrow> Address \<Rightarrow> bool" where
  "active_in st a = (case map_of st a of None \<Rightarrow> False | Some b \<Rightarrow> b)"

definition add2 :: "registry \<Rightarrow> Address \<Rightarrow> Address \<Rightarrow> Bytes32 \<Rightarrow> Bytes32
                      \<Rightarrow> registry \<times> bool \<times> foreign option" where
  "add2 st a e i k = ((a, True) # st, True, None)"

definition update2 :: "registry \<Rightarrow> Address \<Rightarrow> bool \<Rightarrow> registry \<times> bool \<times> foreign option" where
  "update2 st a b =
     (if a \<in> set (map fst st) \<and> 2 \<le> length st then ((a, b) # st, True, None)
      else (st, False, None))"

definition node1 :: Candidate where
  "node1 = \<lparr> NodeMaster = 0x2a02604a8b7aaa84991c21d7de1c3238046c5275, Endorsor = 11,
              Identity = 12, VrfPublicKey = 0, Active = False \<rparr>"

definition node2 :: Candidate where
  "node2 = \<lparr> NodeMaster = 0x86fd9eb1cf082d7d6b0c6033fc89ccfcbf648549, Endorsor = 21,
              Identity = 22, VrfPublicKey = 0, Active = True \<rparr>"

definition stranger :: Candidate where
  "stranger = \<lparr> NodeMaster = 0xdead, Endorsor = 31, Identity = 32, VrfPublicKey = 0,
                 Active = True \<rparr>"

definition accept_all :: "registry Consensus \<Rightarrow> registry \<Rightarrow> Block \<Rightarrow> Header \<Rightarrow> u64
                            \<Rightarrow> stage option \<times> Receipts option \<times> error option" where
  "accept_all c st blk parent now = (Some (Stage 7), Some [], None)"

definition candidates_are :: "Candidate list \<Rightarrow> registry \<Rightarrow> foreign + Candidate list" where
  "candidates_are cs st = Inr cs"

definition small_packages :: "Candidate list \<Rightarrow> registry Packages" where
  "small_packages cs =
     \<lparr> SetCode = set_code, Extension_Address = 0x45, Extension_V2 = [2],
       Authority_Address = 0x41, Authority_V2 = [2],
       AllCandidates = candidates_are cs, Add2 = add2, Update2 = update2,
       DelegationFeature = 1, validate = accept_all \<rparr>"

definition forks_at :: "u32 \<Rightarrow> u32 \<Rightarrow> ForkConfig" where
  "forks_at v191 v193 = \<lparr> VIP191 = v191, ETH_CONST = MaxUint32, BLOCKLIST = MaxUint32,
                           VIP193 = v193 \<rparr>"

definition block_of :: "Bytes32 \<Rightarrow> Bytes32 \<Rightarrow> u32 \<Rightarrow> Features \<Rightarrow> Block" where
  "block_of i parent n feats =
     \<lparr> Header = \<lparr> ID = i, ParentID = parent, Number = n, Timestamp = 1526400050,
                   TxsFeatures = feats, StateRoot = 105, NV = i \<rparr> \<rparr>"

section \<open>The NoFork sentinel\<close>

text \<open>
  C3. Three of the four fields of \<open>NoFork\<close> are the maximum of \<open>uint32\<close>; the field
  \<open>VIP193\<close> is \<open>math.MaxInt32\<close>, which is a different, smaller block number, and
  \<open>String\<close> therefore lists VIP193 as a scheduled fork.
\<close>

theorem NoFork_VIP193_is_MaxInt32:
  "VIP191 NoFork = MaxUint32 \<and> ETH_CONST NoFork = MaxUint32 \<and> BLOCKLIST NoFork = MaxUint32
   \<and> VIP193 NoFork = 2147483647 \<and> VIP193 NoFork \<noteq> MaxUint32 \<and> VIP193 NoFork < MaxUint32
   \<and> String_forks NoFork = [(''VIP193'', 2147483647)]"
  by (simp add: NoFork_def MaxUint32_def MaxInt32_def String_forks_def push_def)

section \<open>Flow errors of Process\<close>

text \<open>
  C7. A block whose id the repository already stores is answered with \<open>errKnownBlock\<close>,
  whatever the fork configuration, the header fields and the other collaborators are: the
  lookup is the first thing \<open>Process\<close> does. A block that is not stored and whose parent
  is not found is answered with \<open>errParentMissing\<close>. Both returns carry a nil stage and
  nil receipts.
\<close>

theorem Process_known_block_parent_missing:
  "(GetBlockSummary (Consensus.repo c) (ID (Header blk)) = Inr s
      \<longrightarrow> Process pk c blk now = Return (None, None, Some errKnownBlock))
   \<and> (GetBlockSummary (Consensus.repo c) (ID (Header blk)) = Inl e \<and> IsNotFound (Consensus.repo c) e
      \<and> GetBlockSummary (Consensus.repo c) (ParentID (Header blk)) = Inl e' \<and> IsNotFound (Consensus.repo c) e'
      \<longrightarrow> Process pk c blk now = Return (None, None, Some errParentMissing))"
  by (simp add: Process_def)

lemmas small_world_defs =
  small_consensus_def small_repo_def lookup_summary_def is_not_found_def block_of_def
  not_found_def

theorem Process_known_block_parent_missing_witness:
  "Process (small_packages []) (small_consensus NoFork) (block_of 1 0 0 0) 5
     = Return (None, None, Some errKnownBlock)
   \<and> Process (small_packages []) (small_consensus NoFork) (block_of 5 7 3 0) 5
     = Return (None, None, Some errParentMissing)"
proof -
  have known: "GetBlockSummary (Consensus.repo (small_consensus NoFork)) (ID (Header (block_of 1 0 0 0)))
                 = Inr \<lparr> Summary_Header = stored 1 \<rparr>"
    by (simp add: small_world_defs)
  have missing: "GetBlockSummary (Consensus.repo (small_consensus NoFork)) (ID (Header (block_of 5 7 3 0)))
                   = Inl not_found \<and> IsNotFound (Consensus.repo (small_consensus NoFork)) not_found
                 \<and> GetBlockSummary (Consensus.repo (small_consensus NoFork))
                     (ParentID (Header (block_of 5 7 3 0))) = Inl not_found
                 \<and> IsNotFound (Consensus.repo (small_consensus NoFork)) not_found"
    by (simp add: small_world_defs)
  from known missing
    Process_known_block_parent_missing
      [where c = "small_consensus NoFork" and blk = "block_of 1 0 0 0"
         and s = "\<lparr> Summary_Header = stored 1 \<rparr>" and pk = "small_packages []" and now = 5]
    Process_known_block_parent_missing
      [where c = "small_consensus NoFork" and blk = "block_of 5 7 3 0"
         and e = not_found and e' = not_found and pk = "small_packages []" and now = 5]
  show ?thesis by blast
qed

section \<open>Selectors of the small world\<close>

lemma small_bft_sel [simp]:
  "newView small_bft = new_view" "isAncestor small_bft = later_id"
  "block_Number small_bft = number_of"
  by (simp_all add: small_bft_def)

lemma small_chain_sel [simp]:
  "HeadID small_chain = 4" "GetBlockHeader small_chain = lookup_header"
  by (simp_all add: small_chain_def)

lemma small_repo_sel [simp]:
  "GetBlockSummary small_repo = lookup_summary" "IsNotFound small_repo = is_not_found"
  "NewChain small_repo = chain_of" "GetBranchesByTimestamp small_repo = one_branch"
  by (simp_all add: small_repo_def)

lemmas bft_world =
  lookup_summary_def later_id_def stored_def new_view_def view_at_def number_of_def
  chain_of_def lookup_header_def one_branch_def pc_on_3_def not_found_def

section \<open>The RTPC tracker: last committed block\<close>

text \<open>
  C1. On a tracker whose \<open>lastCommitted\<close> is not zero, \<open>updateLastCommitted\<close> returns an
  error and leaves the tracker as it was when the ancestry check fails, either with an
  error of its own or with the answer that the new id is no offspring. When the check
  succeeds, \<open>lastCommitted\<close> becomes the new id, and \<open>curr\<close> is cleared exactly when it is
  present, the header of the new id is found and \<open>curr\<close> is not newer than that header.
  So \<open>lastCommitted\<close> only ever moves to an offspring.
\<close>

theorem updateLastCommitted_lineage:
  assumes nz: "\<not> IsZero (lastCommitted r)"
  shows "(\<forall>ok err. isAncestor d (rtpc.repo r) newLast (lastCommitted r) = (ok, Some err)
            \<longrightarrow> updateLastCommitted d r newLast = (r, Some (Foreign err)))
       \<and> (isAncestor d (rtpc.repo r) newLast (lastCommitted r) = (False, None)
            \<longrightarrow> updateLastCommitted d r newLast = (r, Some errNotOffspring))
       \<and> (isAncestor d (rtpc.repo r) newLast (lastCommitted r) = (True, None)
            \<longrightarrow> updateLastCommitted d r newLast =
                  (r\<lparr> lastCommitted := newLast,
                      curr := (case (curr r, GetBlockSummary (rtpc.repo r) newLast) of
                                 (Some c, Inr s) \<Rightarrow>
                                   if Timestamp c \<le> Timestamp (Summary_Header s)
                                   then None else Some c
                               | _ \<Rightarrow> curr r) \<rparr>,
                   (case (curr r, GetBlockSummary (rtpc.repo r) newLast) of
                      (Some c, Inl err) \<Rightarrow> Some (Foreign err)
                    | _ \<Rightarrow> None)))"
proof (intro conjI allI impI)
  fix ok err
  assume "isAncestor d (rtpc.repo r) newLast (lastCommitted r) = (ok, Some err)"
  with nz show "updateLastCommitted d r newLast = (r, Some (Foreign err))"
    by (simp add: updateLastCommitted_def offspring_guard_def)
next
  assume "isAncestor d (rtpc.repo r) newLast (lastCommitted r) = (False, None)"
  with nz show "updateLastCommitted d r newLast = (r, Some errNotOffspring)"
    by (simp add: updateLastCommitted_def offspring_guard_def)
next
  assume "isAncestor d (rtpc.repo r) newLast (lastCommitted r) = (True, None)"
  with nz have guard: "offspring_guard d r newLast = None"
    by (simp add: offspring_guard_def)
  show "updateLastCommitted d r newLast =
          (r\<lparr> lastCommitted := newLast,
              curr := (case (curr r, GetBlockSummary (rtpc.repo r) newLast) of
                         (Some c, Inr s) \<Rightarrow>
                           if Timestamp c \<le> Timestamp (Summary_Header s) then None else Some c
                       | _ \<Rightarrow> curr r) \<rparr>,
           (case (curr r, GetBlockSummary (rtpc.repo r) newLast) of
              (Some c, Inl err) \<Rightarrow> Some (Foreign err)
            | _ \<Rightarrow> None))"
  proof (cases "curr r")
    case None
    with guard show ?thesis by (simp add: updateLastCommitted_def)
  next
    case (Some c)
    with guard show ?thesis
      by (cases "GetBlockSummary (rtpc.repo r) newLast") (simp_all add: updateLastCommitted_def)
  qed
qed

theorem updateLastCommitted_lineage_witness:
  "updateLastCommitted small_bft (tracker (Some (stored 2)) 1) 3 = (tracker None 3, None)
   \<and> updateLastCommitted small_bft (tracker (Some (stored 3)) 2) 1
       = (tracker (Some (stored 3)) 2, Some errNotOffspring)"
proof -
  have nz1: "\<not> IsZero (lastCommitted (tracker (Some (stored 2)) 1))"
    and nz2: "\<not> IsZero (lastCommitted (tracker (Some (stored 3)) 2))"
    by (simp_all add: IsZero_def tracker_def)
  have offspring: "isAncestor small_bft (rtpc.repo (tracker (Some (stored 2)) 1)) 3
                     (lastCommitted (tracker (Some (stored 2)) 1)) = (True, None)"
    and stranger: "isAncestor small_bft (rtpc.repo (tracker (Some (stored 3)) 2)) 1
                     (lastCommitted (tracker (Some (stored 3)) 2)) = (False, None)"
    by (simp_all add: tracker_def later_id_def)
  from updateLastCommitted_lineage [OF nz1, of small_bft 3] offspring
  have "updateLastCommitted small_bft (tracker (Some (stored 2)) 1) 3 = (tracker None 3, None)"
    by (simp add: tracker_def lookup_summary_def stored_def)
  moreover from updateLastCommitted_lineage [OF nz2, of small_bft 1] stranger
  have "updateLastCommitted small_bft (tracker (Some (stored 3)) 2) 1
          = (tracker (Some (stored 3)) 2, Some errNotOffspring)"
    by simp
  ultimately show ?thesis by simp
qed

section \<open>The RTPC tracker: adopting a candidate\<close>

lemma adoptCandidate_newer_than_committed:
  assumes run: "adoptCandidate d r v ts = Some (Return (r', e))"
    and new: "curr r' = Some cand" and changed: "curr r' \<noteq> curr r"
  shows "\<exists>s2. GetBlockSummary (rtpc.repo r) (lastCommitted r) = Inr s2
              \<and> Timestamp (Summary_Header s2) < Timestamp cand"
  using assms
  by (auto simp: adoptCandidate_def Let_def split: prod.splits sum.splits option.splits if_splits)

lemma adoptCandidate_never_panics: "adoptCandidate d r v ts \<noteq> Some (Panics p)"
  by (auto simp: adoptCandidate_def Let_def split: prod.splits sum.splits option.splits if_splits)

lemma update_adopts:
  assumes run: "update d r newBlock = Some (Return (r', e))"
    and new: "curr r' = Some cand" and changed: "curr r' \<noteq> curr r"
  shows "\<exists>currView summary summary2.
           newView d (NewChain (rtpc.repo r) (ID (Header newBlock)))
                     (block_Number d (NV (Header newBlock))) = Inr currView
         \<and> hasQCForNV currView
         \<and> GetBlockSummary (rtpc.repo r) (getFirstBlockID currView) = Inr summary
         \<and> (\<forall>c. curr r = Some c \<longrightarrow> Timestamp c < Timestamp (Summary_Header summary))
         \<and> GetBlockSummary (rtpc.repo r) (lastCommitted r) = Inr summary2
         \<and> Timestamp (Summary_Header summary2) < Timestamp cand"
proof -
  from run obtain currView where
    nv: "newView d (NewChain (rtpc.repo r) (ID (Header newBlock)))
                   (block_Number d (NV (Header newBlock))) = Inr currView"
    using new changed by (auto simp: update_def Let_def split: sum.splits)
  from run nv new changed have qc: "hasQCForNV currView"
    by (auto simp: update_def Let_def split: if_splits)
  from run nv qc obtain summary where
    sm: "GetBlockSummary (rtpc.repo r) (getFirstBlockID currView) = Inr summary"
    by (cases "GetBlockSummary (rtpc.repo r) (getFirstBlockID currView)")
       (auto simp: update_def Let_def ptr_of_def)
  let ?ts = "Timestamp (Summary_Header summary)"
  let ?r1 = "if curr_is r (\<lambda>c. getNumSigOnPC currView (ID c) = 0)
             then r\<lparr> curr := None \<rparr> else r"
  from run nv qc sm new changed have newer: "\<not> curr_is r (\<lambda>c. ?ts \<le> Timestamp c)"
    by (auto simp: update_def Let_def ptr_of_def err_of_def split: if_splits)
  from run nv qc sm newer new changed
  have ad: "adoptCandidate d ?r1 currView ?ts = Some (Return (r', e))"
    and cleared: "curr ?r1 = None"
    by (auto simp: update_def Let_def ptr_of_def err_of_def split: if_splits)
  from new cleared have "curr r' \<noteq> curr ?r1" by simp
  from adoptCandidate_newer_than_committed [OF ad new this] obtain s2 where
    "GetBlockSummary (rtpc.repo ?r1) (lastCommitted ?r1) = Inr s2"
    "Timestamp (Summary_Header s2) < Timestamp cand" by blast
  moreover have "rtpc.repo ?r1 = rtpc.repo r" "lastCommitted ?r1 = lastCommitted r" by simp_all
  moreover from newer have "\<forall>c. curr r = Some c \<longrightarrow> Timestamp c < ?ts"
    by (auto simp: curr_is_def)
  ultimately show ?thesis using nv qc sm by auto
qed

lemma update_no_quorum:
  assumes "newView d (NewChain (rtpc.repo r) (ID (Header newBlock)))
                     (block_Number d (NV (Header newBlock))) = Inr currView"
    and "\<not> hasQCForNV currView"
  shows "update d r newBlock = Some (Return (r, None))"
  using assms by (simp add: update_def)

text \<open>
  C2. When \<open>update\<close> returns with a candidate in \<open>curr\<close> that was not there before, the
  view of the new block has a new-view quorum, the timestamp of the view's first block is
  strictly greater than that of the candidate held before (if there was one), and the new
  candidate's timestamp is strictly greater than that of the header of \<open>lastCommitted\<close>.
  When the view of the new block has no new-view quorum, \<open>update\<close> returns nil and the
  tracker is unchanged.
\<close>

theorem update_adopts_only_newer:
  "(update d r newBlock = Some (Return (r', e)) \<and> curr r' = Some cand \<and> curr r' \<noteq> curr r
      \<longrightarrow> (\<exists>currView summary summary2.
             newView d (NewChain (rtpc.repo r) (ID (Header newBlock)))
                       (block_Number d (NV (Header newBlock))) = Inr currView
           \<and> hasQCForNV currView
           \<and> GetBlockSummary (rtpc.repo r) (getFirstBlockID currView) = Inr summary
           \<and> (\<forall>c. curr r = Some c \<longrightarrow> Timestamp c < Timestamp (Summary_Header summary))
           \<and> GetBlockSummary (rtpc.repo r) (lastCommitted r) = Inr summary2
           \<and> Timestamp (Summary_Header summary2) < Timestamp cand))
   \<and> (\<forall>currView. newView d (NewChain (rtpc.repo r) (ID (Header newBlock)))
                      (block_Number d (NV (Header newBlock))) = Inr currView
         \<and> \<not> hasQCForNV currView
      \<longrightarrow> update d r newBlock = Some (Return (r, None)))"
  using update_adopts [of d r newBlock r' e cand] update_no_quorum [of d r newBlock]
  by blast

lemma searchBranch_at_3: "searchBranch small_bft small_chain 3 1526400030 3 = Some NextBranch"
  by (subst searchBranch.simps) (simp add: bft_world)

lemma searchBranch_at_4: "searchBranch small_bft small_chain 3 1526400030 4 = Some NextBranch"
  by (subst searchBranch.simps) (simp add: bft_world searchBranch_at_3)

lemma update_small_world:
  "update small_bft (tracker (Some (stored 2)) 1) \<lparr> Header = stored 3 \<rparr>
     = Some (Return (tracker (Some (stored 3)) 1, None))"
  by (simp add: update_def adoptCandidate_def ptr_of_def err_of_def curr_is_def tracker_def
        bft_world searchBranch_at_4)

theorem update_adopts_only_newer_witness:
  "update small_bft (tracker (Some (stored 2)) 1) \<lparr> Header = stored 3 \<rparr>
     = Some (Return (tracker (Some (stored 3)) 1, None))
   \<and> Timestamp (stored 2) < Timestamp (stored 3) \<and> Timestamp (stored 1) < Timestamp (stored 3)
   \<and> (\<exists>summary2. lookup_summary 1 = Inr summary2
         \<and> Timestamp (Summary_Header summary2) < Timestamp (stored 3))
   \<and> update small_bft (tracker (Some (stored 2)) 1) \<lparr> Header = stored 1 \<rparr>
     = Some (Return (tracker (Some (stored 2)) 1, None))"
proof -
  let ?r = "tracker (Some (stored 2)) 1"
  have changed: "curr (tracker (Some (stored 3)) 1) = Some (stored 3)
                 \<and> curr (tracker (Some (stored 3)) 1) \<noteq> curr ?r"
    by (simp add: tracker_def stored_def)
  have view1: "newView small_bft (NewChain (rtpc.repo ?r) (ID (Header \<lparr> Header = stored 1 \<rparr>)))
                 (block_Number small_bft (NV (Header \<lparr> Header = stored 1 \<rparr>))) = Inr (view_at 1)
               \<and> \<not> hasQCForNV (view_at 1)"
    by (simp add: tracker_def bft_world)
  from update_adopts_only_newer
         [of small_bft ?r "\<lparr> Header = stored 3 \<rparr>" "tracker (Some (stored 3)) 1" None "stored 3"]
       update_small_world changed
  have "\<exists>summary2. GetBlockSummary (rtpc.repo ?r) (lastCommitted ?r) = Inr summary2
          \<and> Timestamp (Summary_Header summary2) < Timestamp (stored 3)"
    by blast
  then have committed: "\<exists>summary2. lookup_summary 1 = Inr summary2
          \<and> Timestamp (Summary_Header summary2) < Timestamp (stored 3)"
    by (simp add: tracker_def)
  from update_adopts_only_newer [of small_bft ?r "\<lparr> Header = stored 1 \<rparr>"] view1
  have quorum: "update small_bft ?r \<lparr> Header = stored 1 \<rparr> = Some (Return (?r, None))"
    by blast
  have "Timestamp (stored 2) < Timestamp (stored 3) \<and> Timestamp (stored 1) < Timestamp (stored 3)"
    by (simp add: stored_def)
  with update_small_world committed quorum show ?thesis by simp
qed

section \<open>The RTPC tracker: the summary of the view's first block\<close>

lemma ptr_excludes_err: "ptr_of res = Some s \<Longrightarrow> err_of res = None"
  by (cases res) (simp_all add: ptr_of_def err_of_def)

lemma update_panics_iff:
  "update d r newBlock = Some (Panics p) \<longleftrightarrow>
     p = NilDereference \<and>
     (\<exists>currView err.
        newView d (NewChain (rtpc.repo r) (ID (Header newBlock)))
                  (block_Number d (NV (Header newBlock))) = Inr currView
      \<and> hasQCForNV currView
      \<and> GetBlockSummary (rtpc.repo r) (getFirstBlockID currView) = Inl err)"
  by (auto simp: update_def Let_def ptr_of_def err_of_def adoptCandidate_never_panics
           split: sum.splits option.splits if_splits)

text \<open>
  C8. In \<open>update\<close>, once the view of the new block has a new-view quorum, a failed lookup
  of the summary of the view's first block makes \<open>update\<close> panic on a nil pointer: it
  does not return the lookup's error, because the summary is read before the error is
  tested (a summary that could be read comes with no error). This lookup is the only
  place where \<open>update\<close> can panic, so \<open>update\<close> is free of nil dereferences exactly when
  the lookup succeeds or is not reached.
\<close>

theorem update_first_block_summary:
  "(\<forall>currView err.
      newView d (NewChain (rtpc.repo r) (ID (Header newBlock)))
                (block_Number d (NV (Header newBlock))) = Inr currView
      \<and> hasQCForNV currView
      \<and> GetBlockSummary (rtpc.repo r) (getFirstBlockID currView) = Inl err
      \<longrightarrow> update d r newBlock = Some (Panics NilDereference)
        \<and> update d r newBlock \<noteq> Some (Return (r, Some (Foreign err))))
   \<and> (\<forall>p. update d r newBlock = Some (Panics p)
      \<longrightarrow> p = NilDereference
        \<and> (\<exists>currView err.
              newView d (NewChain (rtpc.repo r) (ID (Header newBlock)))
                        (block_Number d (NV (Header newBlock))) = Inr currView
            \<and> hasQCForNV currView
            \<and> GetBlockSummary (rtpc.repo r) (getFirstBlockID currView) = Inl err))
   \<and> (\<forall>i summary. ptr_of (GetBlockSummary (rtpc.repo r) i) = Some summary
      \<longrightarrow> err_of (GetBlockSummary (rtpc.repo r) i) = None)"
proof (intro conjI allI impI)
  fix currView err
  assume reach:
    "newView d (NewChain (rtpc.repo r) (ID (Header newBlock)))
               (block_Number d (NV (Header newBlock))) = Inr currView
     \<and> hasQCForNV currView
     \<and> GetBlockSummary (rtpc.repo r) (getFirstBlockID currView) = Inl err"
  then show "update d r newBlock = Some (Panics NilDereference)"
    using update_panics_iff [of d r newBlock NilDereference] by blast
  then show "update d r newBlock \<noteq> Some (Return (r, Some (Foreign err)))"
    by simp
next
  fix p
  assume "update d r newBlock = Some (Panics p)"
  then show "p = NilDereference"
    and "\<exists>currView err.
           newView d (NewChain (rtpc.repo r) (ID (Header newBlock)))
                     (block_Number d (NV (Header newBlock))) = Inr currView
         \<and> hasQCForNV currView
         \<and> GetBlockSummary (rtpc.repo r) (getFirstBlockID currView) = Inl err"
    using update_panics_iff [of d r newBlock p] by blast+
next
  fix i summary
  assume "ptr_of (GetBlockSummary (rtpc.repo r) i) = Some summary"
  then show "err_of (GetBlockSummary (rtpc.repo r) i) = None" by (rule ptr_excludes_err)
qed

theorem update_first_block_summary_witness:
  "lookup_summary (getFirstBlockID (view_at 4)) = Inl not_found
   \<and> update small_bft (tracker (Some (stored 2)) 1) \<lparr> Header = stored 4 \<rparr>
       = Some (Panics NilDereference)"
proof -
  let ?r = "tracker (Some (stored 2)) 1"
  have reach:
    "newView small_bft (NewChain (rtpc.repo ?r) (ID (Header \<lparr> Header = stored 4 \<rparr>)))
               (block_Number small_bft (NV (Header \<lparr> Header = stored 4 \<rparr>))) = Inr (view_at 4)
     \<and> hasQCForNV (view_at 4)
     \<and> GetBlockSummary (rtpc.repo ?r) (getFirstBlockID (view_at 4)) = Inl not_found"
    by (simp add: tracker_def bft_world)
  then have "lookup_summary (getFirstBlockID (view_at 4)) = Inl not_found"
    by (simp add: tracker_def)
  moreover from update_first_block_summary [of small_bft ?r "\<lparr> Header = stored 4 \<rparr>"] reach
  have "update small_bft ?r \<lparr> Header = stored 4 \<rparr> = Some (Panics NilDereference)"
    by blast
  ultimately show ?thesis by simp
qed

section \<open>Lemmas on Process and the candidates loop\<close>

lemma contract_add_active:
  "authority_contract pk act \<Longrightarrow> Add2 pk st a e i k = (st', True, None) \<Longrightarrow> act st' a"
  unfolding authority_contract_def by metis

lemma contract_update_sets:
  "authority_contract pk act \<Longrightarrow> Update2 pk st a b = (st', True, None) \<Longrightarrow> act st' a = b"
  unfolding authority_contract_def by metis

lemma contract_add_frame:
  "authority_contract pk act \<Longrightarrow> Add2 pk st a e i k = (st', ok, err) \<Longrightarrow> a' \<noteq> a
     \<Longrightarrow> act st' a' = act st a'"
  unfolding authority_contract_def by metis

lemma contract_update_frame:
  "authority_contract pk act \<Longrightarrow> Update2 pk st a b = (st', ok, err) \<Longrightarrow> a' \<noteq> a
     \<Longrightarrow> act st' a' = act st a'"
  unfolding authority_contract_def by metis

lemma candidatesLoop_append:
  "candidatesLoop pk i (xs @ ys) st =
     (case candidatesLoop pk i xs st of
        (st1, None) \<Rightarrow> candidatesLoop pk (i + length xs) ys st1
      | (st1, Some e) \<Rightarrow> (st1, Some e))"
proof (induction xs arbitrary: i st)
  case Nil
  show ?case by simp
next
  case (Cons x xs)
  show ?case
    by (simp add: Cons.IH Let_def split: prod.splits option.splits)
qed

text \<open>What a successful pass of the loop over one candidate consists of.\<close>

lemma candidatesLoop_Cons_ok:
  assumes "candidatesLoop pk i (x # xs) st = (st', None)"
  obtains st1 st2 ok2 where
    "\<not> IsZero (GetVrfPuiblicKey (NodeMaster x))"
    "Add2 pk st (NodeMaster x) (Endorsor x) (Identity x) (GetVrfPuiblicKey (NodeMaster x))
       = (st1, True, None)"
    "if Active x then st2 = st1
     else Update2 pk st1 (NodeMaster x) False = (st2, ok2, None) \<and> (ok2 \<or> i = 0)"
    "candidatesLoop pk (Suc i) xs st2 = (st', None)"
  using assms
  by (auto simp: Let_def split: if_splits prod.splits)

lemma candidatesLoop_frame:
  assumes ctr: "authority_contract pk act"
    and other: "a \<notin> NodeMaster ` set cs"
    and run: "candidatesLoop pk i cs st = (st', None)"
  shows "act st' a = act st a"
  using other run
proof (induction cs arbitrary: i st)
  case Nil
  then show ?case by simp
next
  case (Cons x xs)
  from Cons.prems(2) obtain st1 st2 ok2 where
    add: "Add2 pk st (NodeMaster x) (Endorsor x) (Identity x) (GetVrfPuiblicKey (NodeMaster x))
            = (st1, True, None)"
    and upd: "if Active x then st2 = st1
              else Update2 pk st1 (NodeMaster x) False = (st2, ok2, None) \<and> (ok2 \<or> i = 0)"
    and rest: "candidatesLoop pk (Suc i) xs st2 = (st', None)"
    by (rule candidatesLoop_Cons_ok)
  from Cons.prems(1) have ne: "a \<noteq> NodeMaster x" and nin: "a \<notin> NodeMaster ` set xs" by auto
  from ctr add ne have "act st1 a = act st a"
    by (rule contract_add_frame)
  moreover have "act st2 a = act st1 a"
  proof (cases "Active x")
    case True
    with upd show ?thesis by simp
  next
    case False
    with upd have "Update2 pk st1 (NodeMaster x) False = (st2, ok2, None)" by simp
    from ctr this ne show ?thesis by (rule contract_update_frame)
  qed
  moreover from Cons.IH [OF nin rest] have "act st' a = act st2 a" .
  ultimately show ?case by simp
qed

lemma first_candidate_flag:
  assumes run: "UpdateConsensusNodesForVip193 pk c header = Return (Some st', None)"
    and cands: "AllCandidates pk (stater c (ID header)) = Inr (first # rest)"
    and ctr: "authority_contract pk act"
    and once: "NodeMaster first \<notin> NodeMaster ` set rest"
  shows "act st' (NodeMaster first) = Active first"
proof (cases "Active first")
  case True
  with run cands have loop: "candidatesLoop pk 0 (first # rest) (stater c (ID header)) = (st', None)"
    by (auto simp: UpdateConsensusNodesForVip193_def Let_def split: if_splits prod.splits option.splits)
  then obtain st1 st2 ok2 where
    add: "Add2 pk (stater c (ID header)) (NodeMaster first) (Endorsor first) (Identity first)
            (GetVrfPuiblicKey (NodeMaster first)) = (st1, True, None)"
    and upd: "if Active first then st2 = st1
              else Update2 pk st1 (NodeMaster first) False = (st2, ok2, None) \<and> (ok2 \<or> (0::nat) = 0)"
    and rest: "candidatesLoop pk (Suc 0) rest st2 = (st', None)"
    by (rule candidatesLoop_Cons_ok)
  from upd True have "st2 = st1" by simp
  with contract_add_active [OF ctr add] have "act st2 (NodeMaster first)" by simp
  with candidatesLoop_frame [OF ctr once rest] True show ?thesis by simp
next
  case False
  with run cands obtain st1 where
    "Update2 pk st1 (NodeMaster first) False = (st', True, None)"
    by (auto simp: UpdateConsensusNodesForVip193_def Let_def split: if_splits prod.splits option.splits)
  from contract_update_sets [OF ctr this] False show ?thesis by simp
qed

lemma first_candidate_updated_again:
  assumes run: "UpdateConsensusNodesForVip193 pk c header = Return (Some st', None)"
    and cands: "AllCandidates pk (stater c (ID header)) = Inr (first # rest)"
  shows "\<exists>st1. candidatesLoop pk 0 (first # rest) (stater c (ID header)) = (st1, None)
           \<and> (if Active first then st' = st1
               else Update2 pk st1 (NodeMaster first) False = (st', True, None))"
  using assms
  by (auto simp: UpdateConsensusNodesForVip193_def Let_def split: if_splits prod.splits option.splits)

lemma update_after_loop_fails:
  assumes guard: "VIP193 (forkConfig c) = Number header"
    and cands: "AllCandidates pk (stater c (ID header)) = Inr (first # rest)"
    and loop: "candidatesLoop pk 0 (first # rest) (stater c (ID header)) = (st1, None)"
    and inactive: "\<not> Active first"
    and upd: "Update2 pk st1 (NodeMaster first) False = (st2, ok, err)"
    and bad: "\<not> ok \<or> err \<noteq> None"
  shows "UpdateConsensusNodesForVip193 pk c header =
           Return (Some st2, Some (node_error ''failed to update node status''
                                     (NodeMaster first) (causeMsg_of err)))"
  using assms
  by (auto simp: UpdateConsensusNodesForVip193_def Let_def simp del: candidatesLoop.simps)

lemma loop_update_refused:
  assumes key: "\<not> IsZero (GetVrfPuiblicKey (NodeMaster cand))"
    and add: "Add2 pk st (NodeMaster cand) (Endorsor cand) (Identity cand)
                (GetVrfPuiblicKey (NodeMaster cand)) = (st1, True, None)"
    and inactive: "\<not> Active cand"
    and upd: "Update2 pk st1 (NodeMaster cand) False = (st2, False, None)"
  shows "candidatesLoop pk i (cand # others) st =
           (if i > 0
            then (st2, Some (node_error ''failed to update node status'' (NodeMaster cand) ''''))
            else candidatesLoop pk (Suc i) others st2)"
  using assms by (simp add: causeMsg_of_def)


lemma Process_at_feature_check:
  assumes "reaches_feature_check pk c blk ps state1"
  shows "Process pk c blk now =
           (if TxsFeatures (Header blk) \<noteq> required_features pk c (Header blk)
            then Return (None, None, Some (errTxFeatures (required_features pk c (Header blk))
                                             (TxsFeatures (Header blk))))
            else
              (case vip193_hook pk c (Header blk) state1 of
                 Inl early \<Rightarrow> early
               | Inr state2 \<Rightarrow>
                   (case validate pk c state2 blk (Summary_Header ps) now of
                      (stg, receipts, Some err) \<Rightarrow> Return (None, None, Some err)
                    | (stg, receipts, None) \<Rightarrow> Return (stg, receipts, None))))"
  using assms
  by (auto simp: reaches_feature_check_def Process_def Process_on_parent_def Let_def
           split: sum.splits)

lemma Process_at_vip193_hook:
  assumes "reaches_vip193_hook pk c blk ps state1"
  shows "Process pk c blk now =
           (case vip193_hook pk c (Header blk) state1 of
              Inl early \<Rightarrow> early
            | Inr state2 \<Rightarrow>
                (case validate pk c state2 blk (Summary_Header ps) now of
                   (stg, receipts, Some err) \<Rightarrow> Return (None, None, Some err)
                 | (stg, receipts, None) \<Rightarrow> Return (stg, receipts, None)))"
  using assms Process_at_feature_check [of pk c blk ps state1 now]
  by (simp add: reaches_vip193_hook_def)

lemma activation_nonzero: "v \<noteq> 0 \<Longrightarrow> activation v = v"
  by (simp add: activation_def)

lemma candidatesLoop_error_is_consensus:
  "candidatesLoop pk i cs st = (st', Some e) \<Longrightarrow> \<exists>ce. e = Consensus ce"
  by (induction cs arbitrary: i st)
     (auto simp: Let_def node_error_def split: if_splits prod.splits)

lemma candidatesLoop_zero_key_fails:
  "cand \<in> set cs \<Longrightarrow> IsZero (GetVrfPuiblicKey (NodeMaster cand))
     \<Longrightarrow> \<exists>st' e. candidatesLoop pk i cs st = (st', Some e)"
proof (induction cs arbitrary: i st)
  case Nil
  then show ?case by simp
next
  case (Cons x xs)
  show ?case
  proof (cases "candidatesLoop pk i (x # xs) st")
    case (Pair st' res)
    show ?thesis
    proof (cases res)
      case None
      with Pair have "candidatesLoop pk i (x # xs) st = (st', None)" by simp
      then obtain st1 st2 ok2 where
        key: "\<not> IsZero (GetVrfPuiblicKey (NodeMaster x))"
        and "Add2 pk st (NodeMaster x) (Endorsor x) (Identity x)
               (GetVrfPuiblicKey (NodeMaster x)) = (st1, True, None)"
        and "if Active x then st2 = st1
             else Update2 pk st1 (NodeMaster x) False = (st2, ok2, None) \<and> (ok2 \<or> i = 0)"
        and rest: "candidatesLoop pk (Suc i) xs st2 = (st', None)"
        by (rule candidatesLoop_Cons_ok)
      from key Cons.prems have "cand \<in> set xs" by auto
      from Cons.IH [OF this Cons.prems(2), of "Suc i" st2] rest show ?thesis by simp
    next
      case (Some e)
      with Pair show ?thesis by simp
    qed
  qed
qed

section \<open>The small world under Process\<close>

lemma small_consensus_sel [simp]:
  "Consensus.repo (small_consensus fc) = small_repo" "stater (small_consensus fc) = empty_state"
  "forkConfig (small_consensus fc) = fc"
  by (simp_all add: small_consensus_def)

lemma small_packages_sel [simp]:
  "SetCode (small_packages cs) = set_code" "AllCandidates (small_packages cs) = candidates_are cs"
  "Add2 (small_packages cs) = add2" "Update2 (small_packages cs) = update2"
  "DelegationFeature (small_packages cs) = 1" "validate (small_packages cs) = accept_all"
  "Authority_Address (small_packages cs) = 0x41" "Authority_V2 (small_packages cs) = [2]"
  by (simp_all add: small_packages_def)

lemma forks_at_sel [simp]: "VIP191 (forks_at a b) = a" "VIP193 (forks_at a b) = b"
  by (simp_all add: forks_at_def)

lemma known_keys [simp]:
  "GetVrfPuiblicKey (NodeMaster node1)
     = 0x96893d6f2d785dbdf75d635d74ee53b85a3e7837150d321c4965de3def134182"
  "GetVrfPuiblicKey (NodeMaster node2)
     = 0x97b182c4d88435c3781bf5f29a59c169a91564acbf193c9ba95a4db3fa703f26"
  "GetVrfPuiblicKey (NodeMaster stranger) = 0"
  by (simp_all add: GetVrfPuiblicKey_def vrfPublicKeyMap_def node1_def node2_def stranger_def)

lemmas consensus_world =
  lookup_summary_def is_not_found_def not_found_def stored_def block_of_def empty_state_def
  set_code_def candidates_are_def accept_all_def add2_def update2_def

lemmas Process_defs =
  Process_def Process_on_parent_def vip191_hook_def required_features_def vip193_hook_def
  UpdateConsensusNodesForVip193_def activation_def MaxUint32_def IsZero_def word_le_nat_alt

lemma loop_node1_node2:
  "candidatesLoop (small_packages cs) 0 [node1, node2] [] =
     ([(NodeMaster node2, True), (NodeMaster node1, True)], None)"
  by (simp add: IsZero_def add2_def update2_def) (simp add: node1_def node2_def)

lemma small_authority_contract: "authority_contract (small_packages cs) active_in"
  by (auto simp: authority_contract_def add2_def update2_def active_in_def split: if_splits)

lemma reaches_small_world:
  "reaches_feature_check (small_packages cs) (small_consensus (forks_at v191 v193))
     (block_of 5 1 n feats) \<lparr> Summary_Header = stored 1 \<rparr> []"
  by (simp add: reaches_feature_check_def vip191_hook_def consensus_world)

section \<open>Transaction features\<close>

text \<open>
  A block that has a parent is numbered at least 1: a header's number is its parent's
  plus one. For such a number, the height that \<open>Process\<close> works with and the configured
  height draw the same line.
\<close>

lemma activation_le_positive:
  assumes "n \<noteq> 0"
  shows "activation v \<le> n \<longleftrightarrow> v \<le> n"
proof (cases "v = 0")
  case True
  from assms have "1 \<le> n" by (simp add: word_le_nat_alt Suc_le_eq unat_gt_0)
  with True show ?thesis by (simp add: activation_def)
next
  case False
  then show ?thesis by (simp add: activation_def)
qed

text \<open>
  C4. Take a block that \<open>Process\<close> carries as far as the comparison of features: it is
  not stored, its parent is, so that its number is not 0, and the hook before VIP-191
  raised no error. When the block number is at least the configured VIP191 height,
  \<open>Process\<close> returns the tx-features consensus error unless the header's bitset is exactly
  the delegation bit; when the number is below that height, \<open>Process\<close> returns the error
  unless the bitset is empty. A header with the required bitset passes the comparison.
\<close>

theorem Process_tx_features:
  assumes reach: "reaches_feature_check pk c blk ps state1"
    and numbered: "Number (Header blk) \<noteq> 0"
  shows "(VIP191 (forkConfig c) \<le> Number (Header blk)
            \<and> TxsFeatures (Header blk) \<noteq> DelegationFeature pk
          \<longrightarrow> Process pk c blk now =
                Return (None, None,
                  Some (errTxFeatures (DelegationFeature pk) (TxsFeatures (Header blk)))))
       \<and> (Number (Header blk) < VIP191 (forkConfig c)
            \<and> TxsFeatures (Header blk) \<noteq> 0
          \<longrightarrow> Process pk c blk now =
                Return (None, None, Some (errTxFeatures 0 (TxsFeatures (Header blk)))))
       \<and> (TxsFeatures (Header blk) =
             (if VIP191 (forkConfig c) \<le> Number (Header blk) then DelegationFeature pk else 0)
          \<longrightarrow> reaches_vip193_hook pk c blk ps state1)"
proof -
  from numbered have required:
    "required_features pk c (Header blk) =
       (if VIP191 (forkConfig c) \<le> Number (Header blk) then DelegationFeature pk else 0)"
    by (simp add: required_features_def activation_le_positive)
  show ?thesis
  proof (intro conjI impI)
    assume "VIP191 (forkConfig c) \<le> Number (Header blk)
            \<and> TxsFeatures (Header blk) \<noteq> DelegationFeature pk"
    with required have "required_features pk c (Header blk) = DelegationFeature pk"
      and "TxsFeatures (Header blk) \<noteq> required_features pk c (Header blk)"
      by simp_all
    with Process_at_feature_check [OF reach, of now]
    show "Process pk c blk now =
            Return (None, None,
              Some (errTxFeatures (DelegationFeature pk) (TxsFeatures (Header blk))))"
      by simp
  next
    assume "Number (Header blk) < VIP191 (forkConfig c)
            \<and> TxsFeatures (Header blk) \<noteq> 0"
    with required have "required_features pk c (Header blk) = 0"
      and "TxsFeatures (Header blk) \<noteq> required_features pk c (Header blk)"
      by auto
    with Process_at_feature_check [OF reach, of now]
    show "Process pk c blk now =
            Return (None, None, Some (errTxFeatures 0 (TxsFeatures (Header blk))))"
      by simp
  next
    assume "TxsFeatures (Header blk) =
              (if VIP191 (forkConfig c) \<le> Number (Header blk) then DelegationFeature pk else 0)"
    with required reach show "reaches_vip193_hook pk c blk ps state1"
      by (simp add: reaches_vip193_hook_def)
  qed
qed

theorem Process_tx_features_witness:
  "Process (small_packages []) (small_consensus (forks_at 3 MaxUint32)) (block_of 5 1 3 0) 5
     = Return (None, None, Some (errTxFeatures 1 0))
   \<and> Process (small_packages []) (small_consensus (forks_at 3 MaxUint32)) (block_of 5 1 2 1) 5
     = Return (None, None, Some (errTxFeatures 0 1))
   \<and> Process (small_packages []) (small_consensus (forks_at 0 MaxUint32)) (block_of 5 1 1 0) 5
     = Return (None, None, Some (errTxFeatures 1 0))
   \<and> reaches_vip193_hook (small_packages []) (small_consensus (forks_at 3 MaxUint32))
       (block_of 5 1 3 1) \<lparr> Summary_Header = stored 1 \<rparr> []"
proof -
  let ?c = "small_consensus (forks_at 3 MaxUint32)"
  let ?zero = "small_consensus (forks_at 0 MaxUint32)"
  have late: "VIP191 (forkConfig ?c) \<le> Number (Header (block_of 5 1 3 0))
              \<and> TxsFeatures (Header (block_of 5 1 3 0)) \<noteq> DelegationFeature (small_packages [])"
    by (simp add: block_of_def)
  have early: "Number (Header (block_of 5 1 2 1)) < VIP191 (forkConfig ?c)
                \<and> TxsFeatures (Header (block_of 5 1 2 1)) \<noteq> 0"
    by (simp add: block_of_def)
  have first: "VIP191 (forkConfig ?zero) \<le> Number (Header (block_of 5 1 1 0))
                \<and> TxsFeatures (Header (block_of 5 1 1 0)) \<noteq> DelegationFeature (small_packages [])"
    by (simp add: block_of_def)
  have right: "TxsFeatures (Header (block_of 5 1 3 1)) =
                  (if VIP191 (forkConfig ?c) \<le> Number (Header (block_of 5 1 3 1))
                   then DelegationFeature (small_packages []) else 0)"
    by (simp add: block_of_def)
  have n3: "Number (Header (block_of 5 1 3 0)) \<noteq> 0"
    and n2: "Number (Header (block_of 5 1 2 1)) \<noteq> 0"
    and n1: "Number (Header (block_of 5 1 1 0)) \<noteq> 0"
    and n3': "Number (Header (block_of 5 1 3 1)) \<noteq> 0"
    by (simp_all add: block_of_def)
  note at3 = reaches_small_world [of "[]" 3 MaxUint32 3 0]
    and at2 = reaches_small_world [of "[]" 3 MaxUint32 2 1]
    and at1 = reaches_small_world [of "[]" 0 MaxUint32 1 0]
    and at3' = reaches_small_world [of "[]" 3 MaxUint32 3 1]
  from Process_tx_features [OF at3 n3, of 5] late
  have "Process (small_packages []) ?c (block_of 5 1 3 0) 5
          = Return (None, None, Some (errTxFeatures 1 0))"
    by (simp add: block_of_def)
  moreover from Process_tx_features [OF at2 n2, of 5] early
  have "Process (small_packages []) ?c (block_of 5 1 2 1) 5
          = Return (None, None, Some (errTxFeatures 0 1))"
    by (simp add: block_of_def)
  moreover from Process_tx_features [OF at1 n1, of 5] first
  have "Process (small_packages []) ?zero (block_of 5 1 1 0) 5
          = Return (None, None, Some (errTxFeatures 1 0))"
    by (simp add: block_of_def)
  moreover from Process_tx_features [OF at3' n3', of 5] right
  have "reaches_vip193_hook (small_packages []) ?c (block_of 5 1 3 1)
          \<lparr> Summary_Header = stored 1 \<rparr> []"
    by blast
  ultimately show ?thesis by simp
qed

section \<open>The candidates at VIP193\<close>

lemma vip193_hook_loop_error:
  assumes height: "VIP193 (forkConfig c) \<noteq> 0" "Number header = VIP193 (forkConfig c)"
    and code: "SetCode pk state1 (Authority_Address pk) (Authority_V2 pk) = (state2, None)"
    and cands: "AllCandidates pk (stater c (ID header)) = Inr cs"
    and loop: "candidatesLoop pk 0 cs (stater c (ID header)) = (st, Some (Consensus ce))"
  shows "vip193_hook pk c header state1 =
           Inl (Return (None, None, Some (Consensus (AddTraceInfo ce ''Process''))))"
  using assms
  by (simp add: vip193_hook_def activation_def UpdateConsensusNodesForVip193_def)

lemma vip193_hook_passed:
  assumes height: "VIP193 (forkConfig c) \<noteq> 0" "Number header = VIP193 (forkConfig c)"
    and cands: "AllCandidates pk (stater c (ID header)) = Inr cs"
    and passed: "vip193_hook pk c header state1 = Inr state2"
  shows "\<exists>st. candidatesLoop pk 0 cs (stater c (ID header)) = (st, None)"
  using assms
  by (auto simp: vip193_hook_def activation_def UpdateConsensusNodesForVip193_def Let_def
           split: prod.splits option.splits outcome.splits error.splits list.splits if_splits)

lemma Process_accepts_only_after_hook:
  assumes reach: "reaches_vip193_hook pk c blk ps state1"
    and ok: "Process pk c blk now = Return (stg, rcp, None)"
  shows "\<exists>state2. vip193_hook pk c (Header blk) state1 = Inr state2"
proof (cases "vip193_hook pk c (Header blk) state1")
  case (Inr state2)
  then show ?thesis by simp
next
  case (Inl early)
  with Process_at_vip193_hook [OF reach, of now] ok have "early = Return (stg, rcp, None)"
    by simp
  with Inl show ?thesis
    by (auto simp: vip193_hook_def Let_def
             split: prod.splits option.splits outcome.splits error.splits if_splits)
qed

text \<open>
  C5. Let \<open>Process\<close> handle the block whose number is the configured VIP193 height: the
  block is not stored, its parent is, so that its number is not 0, its features are the
  required ones, the authority code is set and the candidates are listed. \<open>Process\<close> takes
  the candidates in order and looks each node master up in the embedded table. When the
  lookup made for a candidate yields zero, \<open>Process\<close> returns the consensus error
  "vrf public key not found" for that node. Otherwise \<open>Add2\<close> is applied to the candidate's
  node master, endorsor and identity with the key found, and its refusal is returned as
  "failed to add node". Whenever some candidate's key is zero, \<open>Process\<close> returns a
  consensus error; and when \<open>Process\<close> returns no error, every candidate's key was found
  and \<open>Add2\<close> succeeded on it with that key, in the state left by the candidates before.
\<close>

theorem Process_vip193_candidates:
  assumes reach: "reaches_vip193_hook pk c blk ps state1"
    and numbered: "Number (Header blk) \<noteq> 0"
    and at_height: "Number (Header blk) = VIP193 (forkConfig c)"
    and code: "SetCode pk state1 (Authority_Address pk) (Authority_V2 pk) = (state2, None)"
    and cands: "AllCandidates pk (stater c (ID (Header blk))) = Inr cs"
  shows "(\<forall>pre cand post st.
            cs = pre @ cand # post
            \<and> candidatesLoop pk 0 pre (stater c (ID (Header blk))) = (st, None)
            \<and> IsZero (GetVrfPuiblicKey (NodeMaster cand))
          \<longrightarrow> Process pk c blk now =
                Return (None, None, Some (Consensus (AddTraceInfo
                  (newConsensusError ''UpdateNode'' (Literal ''vrf public key not found'')
                     [Key ''node''] [Addr (NodeMaster cand)] '''') ''Process''))))
       \<and> (\<forall>pre cand post st st1 ok err.
            cs = pre @ cand # post
            \<and> candidatesLoop pk 0 pre (stater c (ID (Header blk))) = (st, None)
            \<and> \<not> IsZero (GetVrfPuiblicKey (NodeMaster cand))
            \<and> Add2 pk st (NodeMaster cand) (Endorsor cand) (Identity cand)
                 (GetVrfPuiblicKey (NodeMaster cand)) = (st1, ok, err)
            \<and> (ok \<and> err = None) = False
          \<longrightarrow> Process pk c blk now =
                Return (None, None, Some (Consensus (AddTraceInfo
                  (newConsensusError ''UpdateNode'' (Literal ''failed to add node'')
                     [Key ''node''] [Addr (NodeMaster cand)] (causeMsg_of err)) ''Process''))))
       \<and> ((\<exists>cand \<in> set cs. IsZero (GetVrfPuiblicKey (NodeMaster cand)))
          \<longrightarrow> (\<exists>ce. Process pk c blk now = Return (None, None, Some (Consensus ce))))
       \<and> (\<forall>stg rcp pre cand post.
            Process pk c blk now = Return (stg, rcp, None) \<and> cs = pre @ cand # post
          \<longrightarrow> \<not> IsZero (GetVrfPuiblicKey (NodeMaster cand))
            \<and> (\<exists>st st1. candidatesLoop pk 0 pre (stater c (ID (Header blk))) = (st, None)
                 \<and> Add2 pk st (NodeMaster cand) (Endorsor cand) (Identity cand)
                      (GetVrfPuiblicKey (NodeMaster cand)) = (st1, True, None)))"
proof -
  from numbered at_height
  have height: "VIP193 (forkConfig c) \<noteq> 0" "Number (Header blk) = VIP193 (forkConfig c)"
    by simp_all
  show ?thesis
  proof (intro conjI allI impI)
  fix pre cand post st
  assume a: "cs = pre @ cand # post
             \<and> candidatesLoop pk 0 pre (stater c (ID (Header blk))) = (st, None)
             \<and> IsZero (GetVrfPuiblicKey (NodeMaster cand))"
  let ?ce = "newConsensusError ''UpdateNode'' (Literal ''vrf public key not found'')
               [Key ''node''] [Addr (NodeMaster cand)] ''''"
  from a have "candidatesLoop pk 0 cs (stater c (ID (Header blk))) = (st, Some (Consensus ?ce))"
    by (simp add: candidatesLoop_append node_error_def)
  from vip193_hook_loop_error [OF height code cands this] Process_at_vip193_hook [OF reach, of now]
  show "Process pk c blk now = Return (None, None, Some (Consensus (AddTraceInfo ?ce ''Process'')))"
    by simp
  next
    fix pre cand post st st1 ok err
    assume a: "cs = pre @ cand # post
               \<and> candidatesLoop pk 0 pre (stater c (ID (Header blk))) = (st, None)
               \<and> \<not> IsZero (GetVrfPuiblicKey (NodeMaster cand))
               \<and> Add2 pk st (NodeMaster cand) (Endorsor cand) (Identity cand)
                    (GetVrfPuiblicKey (NodeMaster cand)) = (st1, ok, err)
               \<and> (ok \<and> err = None) = False"
    let ?ce = "newConsensusError ''UpdateNode'' (Literal ''failed to add node'')
                 [Key ''node''] [Addr (NodeMaster cand)] (causeMsg_of err)"
    from a have "candidatesLoop pk 0 cs (stater c (ID (Header blk))) = (st1, Some (Consensus ?ce))"
      by (auto simp: candidatesLoop_append node_error_def)
    from vip193_hook_loop_error [OF height code cands this]
         Process_at_vip193_hook [OF reach, of now]
    show "Process pk c blk now =
            Return (None, None, Some (Consensus (AddTraceInfo ?ce ''Process'')))"
      by simp
next
  assume "\<exists>cand \<in> set cs. IsZero (GetVrfPuiblicKey (NodeMaster cand))"
  then obtain cand where "cand \<in> set cs" "IsZero (GetVrfPuiblicKey (NodeMaster cand))"
    by blast
  from candidatesLoop_zero_key_fails [OF this, of pk 0 "stater c (ID (Header blk))"]
  obtain st e where loop: "candidatesLoop pk 0 cs (stater c (ID (Header blk))) = (st, Some e)"
    by blast
  from candidatesLoop_error_is_consensus [OF loop] obtain ce where "e = Consensus ce" by blast
  with loop vip193_hook_loop_error [OF height code cands, of st ce]
       Process_at_vip193_hook [OF reach, of now]
  show "\<exists>ce. Process pk c blk now = Return (None, None, Some (Consensus ce))"
    by simp
next
  fix stg rcp pre cand post
  assume a: "Process pk c blk now = Return (stg, rcp, None) \<and> cs = pre @ cand # post"
  from Process_accepts_only_after_hook [OF reach] a obtain state3 where
    "vip193_hook pk c (Header blk) state1 = Inr state3" by blast
  from vip193_hook_passed [OF height cands this] obtain st' where
    loop: "candidatesLoop pk 0 cs (stater c (ID (Header blk))) = (st', None)" by blast
  obtain st res where pre: "candidatesLoop pk 0 pre (stater c (ID (Header blk))) = (st, res)"
    by (cases "candidatesLoop pk 0 pre (stater c (ID (Header blk)))") simp
  with loop a have none: "res = None"
    and tail: "candidatesLoop pk (length pre) (cand # post) st = (st', None)"
    by (auto simp: candidatesLoop_append split: option.splits simp del: candidatesLoop.simps)
  from tail obtain st1 st2 ok2 where
    key: "\<not> IsZero (GetVrfPuiblicKey (NodeMaster cand))"
    and add: "Add2 pk st (NodeMaster cand) (Endorsor cand) (Identity cand)
                (GetVrfPuiblicKey (NodeMaster cand)) = (st1, True, None)"
    and "if Active cand then st2 = st1
         else Update2 pk st1 (NodeMaster cand) False = (st2, ok2, None)
              \<and> (ok2 \<or> length pre = 0)"
    and "candidatesLoop pk (Suc (length pre)) post st2 = (st', None)"
    by (rule candidatesLoop_Cons_ok)
  from key show "\<not> IsZero (GetVrfPuiblicKey (NodeMaster cand))" .
  from pre none add
  show "\<exists>st st1. candidatesLoop pk 0 pre (stater c (ID (Header blk))) = (st, None)
          \<and> Add2 pk st (NodeMaster cand) (Endorsor cand) (Identity cand)
               (GetVrfPuiblicKey (NodeMaster cand)) = (st1, True, None)"
    by blast
  qed
qed

theorem Process_vip193_candidates_witness:
  "candidatesLoop (small_packages [node1, stranger]) 0 [node1] [] = ([(NodeMaster node1, True)], None)
   \<and> IsZero (GetVrfPuiblicKey (NodeMaster stranger))
   \<and> Process (small_packages [node1, stranger]) (small_consensus (forks_at MaxUint32 3))
       (block_of 5 1 3 0) 5
     = Return (None, None, Some (Consensus (AddTraceInfo
         (newConsensusError ''UpdateNode'' (Literal ''vrf public key not found'')
            [Key ''node''] [Addr (NodeMaster stranger)] '''') ''Process'')))"
proof -
  let ?pk = "small_packages [node1, stranger]"
  let ?c = "small_consensus (forks_at MaxUint32 3)"
  let ?blk = "block_of 5 1 3 0"
  have reach: "reaches_vip193_hook ?pk ?c ?blk \<lparr> Summary_Header = stored 1 \<rparr> []"
    using reaches_small_world [of "[node1, stranger]" MaxUint32 3 3 0]
    by (simp add: reaches_vip193_hook_def required_features_def activation_def MaxUint32_def
          block_of_def word_le_nat_alt)
  have height: "Number (Header ?blk) \<noteq> 0" "Number (Header ?blk) = VIP193 (forkConfig ?c)"
    by (simp_all add: block_of_def)
  have code: "SetCode ?pk [] (Authority_Address ?pk) (Authority_V2 ?pk) = ([], None)"
    by (simp add: set_code_def)
  have cands: "AllCandidates ?pk (stater ?c (ID (Header ?blk))) = Inr [node1, stranger]"
    by (simp add: candidates_are_def)
  have pre: "candidatesLoop ?pk 0 [node1] [] = ([(NodeMaster node1, True)], None)"
    by (simp add: IsZero_def add2_def update2_def)
  have zero: "IsZero (GetVrfPuiblicKey (NodeMaster stranger))"
    by (simp add: IsZero_def)
  have split: "[node1, stranger] = [node1] @ stranger # []
               \<and> candidatesLoop ?pk 0 [node1] (stater ?c (ID (Header ?blk)))
                   = ([(NodeMaster node1, True)], None)
               \<and> IsZero (GetVrfPuiblicKey (NodeMaster stranger))"
    using pre zero by (simp add: empty_state_def del: candidatesLoop.simps)
  from Process_vip193_candidates [OF reach height code cands, of 5] split
  have "Process ?pk ?c ?blk 5
          = Return (None, None, Some (Consensus (AddTraceInfo
              (newConsensusError ''UpdateNode'' (Literal ''vrf public key not found'')
                 [Key ''node''] [Addr (NodeMaster stranger)] '''') ''Process'')))"
    by blast
  with pre zero show ?thesis by blast
qed

section \<open>The first candidate\<close>

text \<open>
  C6. Let \<open>UpdateConsensusNodesForVip193\<close> return no error on the candidates
  \<open>first # rest\<close>. If the first candidate is recorded inactive, the last thing done is
  \<open>Update2\<close> with \<open>false\<close> on its node master, in the state left by the loop, and it
  succeeded; if it is recorded active, the state is the one left by the loop. Inside the
  loop, an \<open>Update2\<close> that answers \<open>false\<close> without an error is a consensus error at every
  index but 0, where the loop goes on. And under the contract of the authority registry,
  with the first node master not listed twice, the first candidate's active flag in the
  final state is the recorded one.
\<close>

theorem first_candidate_status:
  assumes run: "UpdateConsensusNodesForVip193 pk c header = Return (Some st', None)"
    and cands: "AllCandidates pk (stater c (ID header)) = Inr (first # rest)"
  shows "(\<exists>st1. candidatesLoop pk 0 (first # rest) (stater c (ID header)) = (st1, None)
            \<and> (if Active first then st' = st1
                else Update2 pk st1 (NodeMaster first) False = (st', True, None)))
       \<and> (\<forall>i cand others st st1 st2.
            \<not> IsZero (GetVrfPuiblicKey (NodeMaster cand))
            \<and> Add2 pk st (NodeMaster cand) (Endorsor cand) (Identity cand)
                 (GetVrfPuiblicKey (NodeMaster cand)) = (st1, True, None)
            \<and> \<not> Active cand
            \<and> Update2 pk st1 (NodeMaster cand) False = (st2, False, None)
          \<longrightarrow> candidatesLoop pk i (cand # others) st =
                (if i > 0
                 then (st2, Some (node_error ''failed to update node status''
                                    (NodeMaster cand) ''''))
                 else candidatesLoop pk (Suc i) others st2))
       \<and> (\<forall>act. authority_contract pk act \<and> NodeMaster first \<notin> NodeMaster ` set rest
          \<longrightarrow> act st' (NodeMaster first) = Active first)"
proof (intro conjI allI impI)
  from run cands
  show "\<exists>st1. candidatesLoop pk 0 (first # rest) (stater c (ID header)) = (st1, None)
          \<and> (if Active first then st' = st1
              else Update2 pk st1 (NodeMaster first) False = (st', True, None))"
    by (rule first_candidate_updated_again)
next
  fix i and cand :: Candidate and others st st1 st2
  assume "\<not> IsZero (GetVrfPuiblicKey (NodeMaster cand))
          \<and> Add2 pk st (NodeMaster cand) (Endorsor cand) (Identity cand)
               (GetVrfPuiblicKey (NodeMaster cand)) = (st1, True, None)
          \<and> \<not> Active cand
          \<and> Update2 pk st1 (NodeMaster cand) False = (st2, False, None)"
  then show "candidatesLoop pk i (cand # others) st =
               (if i > 0
                then (st2, Some (node_error ''failed to update node status''
                                   (NodeMaster cand) ''''))
                else candidatesLoop pk (Suc i) others st2)"
    using loop_update_refused [of cand pk st st1 st2 i others] by blast
next
  fix act
  assume "authority_contract pk act \<and> NodeMaster first \<notin> NodeMaster ` set rest"
  with run cands show "act st' (NodeMaster first) = Active first"
    using first_candidate_flag [of pk c header st' first rest act] by blast
qed

lemma update_nodes_small_world:
  "UpdateConsensusNodesForVip193 (small_packages [node1, node2])
     (small_consensus (forks_at MaxUint32 3)) (Header (block_of 5 1 3 0))
   = Return (Some [(NodeMaster node1, False), (NodeMaster node2, True),
                   (NodeMaster node1, True)], None)"
  by (simp add: Process_defs consensus_world loop_node1_node2 del: candidatesLoop.simps)
     (simp add: node1_def)

theorem first_candidate_status_witness:
  "UpdateConsensusNodesForVip193 (small_packages [node1, node2])
     (small_consensus (forks_at MaxUint32 3)) (Header (block_of 5 1 3 0))
   = Return (Some [(NodeMaster node1, False), (NodeMaster node2, True),
                   (NodeMaster node1, True)], None)
   \<and> Active node1 = False
   \<and> update2 [(NodeMaster node1, True)] (NodeMaster node1) False
       = ([(NodeMaster node1, True)], False, None)
   \<and> update2 [(NodeMaster node2, True), (NodeMaster node1, True)] (NodeMaster node1) False
       = ([(NodeMaster node1, False), (NodeMaster node2, True), (NodeMaster node1, True)],
          True, None)
   \<and> active_in [(NodeMaster node1, False), (NodeMaster node2, True), (NodeMaster node1, True)]
        (NodeMaster node1) = Active node1"
proof -
  let ?pk = "small_packages [node1, node2]"
  let ?c = "small_consensus (forks_at MaxUint32 3)"
  let ?final = "[(NodeMaster node1, False), (NodeMaster node2, True), (NodeMaster node1, True)]"
  have cands: "AllCandidates ?pk (stater ?c (ID (Header (block_of 5 1 3 0)))) = Inr (node1 # [node2])"
    by (simp add: candidates_are_def)
  have once: "authority_contract ?pk active_in \<and> NodeMaster node1 \<notin> NodeMaster ` set [node2]"
    using small_authority_contract [of "[node1, node2]"] by (simp add: node1_def node2_def)
  from first_candidate_status [OF update_nodes_small_world cands] once
  have flag: "active_in ?final (NodeMaster node1) = Active node1"
    by blast
  have "Active node1 = False" by (simp add: node1_def)
  moreover have "update2 [(NodeMaster node1, True)] (NodeMaster node1) False
                   = ([(NodeMaster node1, True)], False, None)"
    and "update2 [(NodeMaster node2, True), (NodeMaster node1, True)] (NodeMaster node1) False
           = (?final, True, None)"
    by (simp_all add: update2_def)
  ultimately show ?thesis using update_nodes_small_world flag by simp
qed

section \<open>An empty list of candidates\<close>

lemma UpdateConsensusNodes_panics_iff:
  "UpdateConsensusNodesForVip193 pk c header = Panics p \<longleftrightarrow>
     p = IndexOutOfRange \<and> VIP193 (forkConfig c) = Number header
     \<and> AllCandidates pk (stater c (ID header)) = Inr []"
  by (auto simp: UpdateConsensusNodesForVip193_def Let_def
           split: sum.splits prod.splits option.splits list.splits if_splits)

text \<open>
  C9. \<open>UpdateConsensusNodesForVip193\<close> reads \<open>candidates[0]\<close> after the loop without
  testing the length. When the block number is the configured VIP193 height and
  \<open>AllCandidates\<close> returns an empty list, the call panics with an index out of range;
  there is no other way for it to panic, so it returns whenever \<open>AllCandidates\<close> fails or
  returns at least one candidate.
\<close>

theorem UpdateConsensusNodes_empty_candidates:
  "(VIP193 (forkConfig c) = Number header \<and> AllCandidates pk (stater c (ID header)) = Inr []
      \<longrightarrow> UpdateConsensusNodesForVip193 pk c header = Panics IndexOutOfRange)
   \<and> (\<forall>p. UpdateConsensusNodesForVip193 pk c header = Panics p
      \<longrightarrow> p = IndexOutOfRange \<and> VIP193 (forkConfig c) = Number header
        \<and> AllCandidates pk (stater c (ID header)) = Inr [])
   \<and> (\<forall>cand cs. AllCandidates pk (stater c (ID header)) = Inr (cand # cs)
      \<longrightarrow> (\<exists>st err. UpdateConsensusNodesForVip193 pk c header = Return (st, err)))"
proof (intro conjI allI impI)
  assume "VIP193 (forkConfig c) = Number header
          \<and> AllCandidates pk (stater c (ID header)) = Inr []"
  then show "UpdateConsensusNodesForVip193 pk c header = Panics IndexOutOfRange"
    using UpdateConsensusNodes_panics_iff [of pk c header IndexOutOfRange] by simp
next
  fix p
  assume "UpdateConsensusNodesForVip193 pk c header = Panics p"
  then have "p = IndexOutOfRange \<and> VIP193 (forkConfig c) = Number header
             \<and> AllCandidates pk (stater c (ID header)) = Inr []"
    using UpdateConsensusNodes_panics_iff [of pk c header p] by simp
  then show "p = IndexOutOfRange" and "VIP193 (forkConfig c) = Number header"
    and "AllCandidates pk (stater c (ID header)) = Inr []"
    by simp_all
next
  fix cand cs
  assume some: "AllCandidates pk (stater c (ID header)) = Inr (cand # cs)"
  show "\<exists>st err. UpdateConsensusNodesForVip193 pk c header = Return (st, err)"
  proof (cases "UpdateConsensusNodesForVip193 pk c header")
    case (Return res)
    then show ?thesis by (cases res) simp
  next
    case (Panics p)
    with some UpdateConsensusNodes_panics_iff [of pk c header p] show ?thesis by simp
  qed
qed

theorem UpdateConsensusNodes_empty_candidates_witness:
  "AllCandidates (small_packages [])
     (stater (small_consensus (forks_at MaxUint32 3)) (ID (Header (block_of 5 1 3 0)))) = Inr []
   \<and> UpdateConsensusNodesForVip193 (small_packages [])
       (small_consensus (forks_at MaxUint32 3)) (Header (block_of 5 1 3 0))
     = Panics IndexOutOfRange
   \<and> Process (small_packages []) (small_consensus (forks_at MaxUint32 3)) (block_of 5 1 3 0) 5
     = Panics IndexOutOfRange"
proof -
  let ?pk = "small_packages []"
  let ?c = "small_consensus (forks_at MaxUint32 3)"
  let ?h = "Header (block_of 5 1 3 0)"
  have empty: "VIP193 (forkConfig ?c) = Number ?h \<and> AllCandidates ?pk (stater ?c (ID ?h)) = Inr []"
    by (simp add: candidates_are_def block_of_def)
  with UpdateConsensusNodes_empty_candidates [of ?c ?h ?pk]
  have panics: "UpdateConsensusNodesForVip193 ?pk ?c ?h = Panics IndexOutOfRange"
    by blast
  have "Process ?pk ?c (block_of 5 1 3 0) 5 = Panics IndexOutOfRange"
    by (simp add: Process_defs consensus_world)
  with empty panics show ?thesis by simp
qed

section \<open>A fork height of zero\<close>

lemma vip191_zero_is_one:
  assumes "VIP191 (forkConfig c0) = 0" "VIP191 (forkConfig c1) = 1"
  shows "vip191_hook pk c0 header state = vip191_hook pk c1 header state
       \<and> required_features pk c0 header = required_features pk c1 header"
  using assms by (simp add: vip191_hook_def required_features_def activation_def)

text \<open>
  C10. With the VIP193 height configured as 0, \<open>Process\<close> enters the VIP193 hook at the
  block numbered 1, sets the authority code, and then \<open>UpdateConsensusNodesForVip193\<close>
  compares the block number with the configured 0: \<open>Process\<close> returns the consensus error
  "block number inconsistent with vip193" for every block numbered 1 that reaches the
  hook, whatever the candidates are.
\<close>

theorem Process_vip193_height_zero:
  assumes reach: "reaches_vip193_hook pk c blk ps state1"
    and zero: "VIP193 (forkConfig c) = 0"
    and one: "Number (Header blk) = 1"
    and code: "SetCode pk state1 (Authority_Address pk) (Authority_V2 pk) = (state2, None)"
  shows "Process pk c blk now =
           Return (None, None, Some (Consensus (AddTraceInfo
             (newConsensusError ''UpdateNode''
                (Literal ''block number inconsistent with vip193'')
                [strDataExp, strDataCurr] [U32 0, U32 1] '''') ''Process'')))"
proof -
  from zero one
  have "UpdateConsensusNodesForVip193 pk c (Header blk) =
          Return (None, Some (Consensus (newConsensusError ''UpdateNode''
            (Literal ''block number inconsistent with vip193'')
            [strDataExp, strDataCurr] [U32 0, U32 1] '''')))"
    by (simp add: UpdateConsensusNodesForVip193_def)
  with zero one code
  have "vip193_hook pk c (Header blk) state1 =
          Inl (Return (None, None, Some (Consensus (AddTraceInfo
            (newConsensusError ''UpdateNode''
               (Literal ''block number inconsistent with vip193'')
               [strDataExp, strDataCurr] [U32 0, U32 1] '''') ''Process''))))"
    by (simp add: vip193_hook_def activation_def)
  with Process_at_vip193_hook [OF reach, of now] show ?thesis by simp
qed

lemma Process_height_one_small_world:
  "Process (small_packages [node1, node2]) (small_consensus (forks_at MaxUint32 1))
     (block_of 5 1 1 0) 5
   = Return (Some (Stage 7), Some [], None)"
  by (simp add: Process_defs consensus_world loop_node1_node2 del: candidatesLoop.simps)

theorem Process_vip193_height_zero_witness:
  "Process (small_packages [node1, node2]) (small_consensus (forks_at MaxUint32 0))
     (block_of 5 1 1 0) 5
   = Return (None, None, Some (Consensus (AddTraceInfo
       (newConsensusError ''UpdateNode'' (Literal ''block number inconsistent with vip193'')
          [strDataExp, strDataCurr] [U32 0, U32 1] '''') ''Process'')))
   \<and> Process (small_packages [node1, node2]) (small_consensus (forks_at MaxUint32 1))
       (block_of 5 1 1 0) 5
     = Return (Some (Stage 7), Some [], None)"
proof -
  let ?pk = "small_packages [node1, node2]"
  let ?c = "small_consensus (forks_at MaxUint32 0)"
  have reach: "reaches_vip193_hook ?pk ?c (block_of 5 1 1 0) \<lparr> Summary_Header = stored 1 \<rparr> []"
    using reaches_small_world [of "[node1, node2]" MaxUint32 0 1 0]
    by (simp add: reaches_vip193_hook_def required_features_def activation_def MaxUint32_def
          block_of_def word_le_nat_alt)
  have zero: "VIP193 (forkConfig ?c) = 0" and one: "Number (Header (block_of 5 1 1 0)) = 1"
    by (simp_all add: block_of_def)
  have code: "SetCode ?pk [] (Authority_Address ?pk) (Authority_V2 ?pk) = ([], None)"
    by (simp add: set_code_def)
  from Process_vip193_height_zero [OF reach zero one code, of 5] Process_height_one_small_world
  show ?thesis by simp
qed

end
